theory Spec2Isabelle
  imports Complex_Main
begin

section \<open>JavaScript values used by the pipeline\<close>

text \<open>
  A JavaScript string is the list of its UTF-16 code units, and a code unit is given by
  its high and its low byte: \<open>length\<close>, \<open>slice\<close>, \<open>split\<close>, \<open>trim\<close> and the regular
  expressions of the source (none has the flag \<open>u\<close>) count and compare code units. The
  string constants of the source are ASCII but for a dash and an ellipsis.
  Counts are integers or naturals. Every number that the source divides is a real: where
  the source computes in binary floating point, the model computes with exact numbers,
  and it rounds where the source calls \<open>Math.round\<close>, which is rounding half up.
\<close>

datatype unit16 = Unit16 char char

type_synonym jsstring = "unit16 list"

definition ascii :: "char \<Rightarrow> unit16" where
  "ascii c = Unit16 (CHR 0x00) c"

text \<open>The string constant with the given ASCII text.\<close>

definition js :: "string \<Rightarrow> jsstring" where
  "js s = map ascii s"

text \<open>U+2014 and U+2026.\<close>

definition emdash :: jsstring where
  "emdash = [Unit16 (CHR 0x20) (CHR 0x14)]"

definition ellipsis :: jsstring where
  "ellipsis = [Unit16 (CHR 0x20) (CHR 0x26)]"

definition Math_round :: "real \<Rightarrow> int" where
  "Math_round x = \<lfloor>x + 1 / 2\<rfloor>"

fun join :: "jsstring \<Rightarrow> jsstring list \<Rightarrow> jsstring" where
  "join sep [] = []"
| "join sep [x] = x"
| "join sep (x # y # ys) = x @ sep @ join sep (y # ys)"

definition truthy :: "jsstring \<Rightarrow> bool" where
  "truthy s = (s \<noteq> [])"

text \<open>\<open>[...new Set(xs)]\<close>: the distinct elements in the order of their first occurrence.\<close>

definition newSet :: "'a list \<Rightarrow> 'a list" where
  "newSet xs = rev (remdups (rev xs))"

text \<open>\<open>set.add(x)\<close> on a set kept as the list of its elements in insertion order.\<close>

definition setAdd :: "'a \<Rightarrow> 'a list \<Rightarrow> 'a list" where
  "setAdd x xs = (if x \<in> set xs then xs else xs @ [x])"

fun natToString :: "nat \<Rightarrow> jsstring" where
  "natToString n =
     (if n < 10 then [ascii (char_of (48 + n))]
      else natToString (n div 10) @ [ascii (char_of (48 + n mod 10))])"

declare natToString.simps [simp del]

definition intToString :: "int \<Rightarrow> jsstring" where
  "intToString i = (if i < 0 then js ''-'' @ natToString (nat (- i)) else natToString (nat i))"

subsection \<open>Character classes\<close>

text \<open>The value of a byte. The ASCII characters are the units below U+0080.\<close>

definition code :: "char \<Rightarrow> nat" where
  "code c = of_char c"

fun isAscii :: "unit16 \<Rightarrow> bool" where
  "isAscii (Unit16 h l) = (h = CHR 0x00 \<and> code l < 0x80)"

text \<open>
  The class \<open>\s\<close>, which is also what \<open>trim\<close> strips: the white space and the line
  terminators of ECMAScript, U+0009 to U+000D, U+0020, U+00A0, U+1680, U+2000 to U+200A,
  U+2028, U+2029, U+202F, U+205F, U+3000 and U+FEFF.
\<close>

fun isSpace :: "unit16 \<Rightarrow> bool" where
  "isSpace (Unit16 h l) =
     (if h = CHR 0x00 then (0x09 \<le> code l \<and> code l \<le> 0x0D) \<or> code l = 0x20 \<or> code l = 0xA0
      else if h = CHR 0x16 then code l = 0x80
      else if h = CHR 0x20 then code l \<le> 0x0A \<or> code l = 0x28 \<or> code l = 0x29
                                  \<or> code l = 0x2F \<or> code l = 0x5F
      else if h = CHR 0x30 then code l = 0x00
      else if h = CHR 0xFE then code l = 0xFF
      else False)"

text \<open>The classes \<open>[A-Z]\<close>, \<open>[a-z]\<close> and \<open>\d\<close>.\<close>

fun isUpper :: "unit16 \<Rightarrow> bool" where
  "isUpper (Unit16 h l) = (h = CHR 0x00 \<and> 0x41 \<le> code l \<and> code l \<le> 0x5A)"

fun isLower :: "unit16 \<Rightarrow> bool" where
  "isLower (Unit16 h l) = (h = CHR 0x00 \<and> 0x61 \<le> code l \<and> code l \<le> 0x7A)"

fun isDigit :: "unit16 \<Rightarrow> bool" where
  "isDigit (Unit16 h l) = (h = CHR 0x00 \<and> 0x30 \<le> code l \<and> code l \<le> 0x39)"

definition isLetter :: "unit16 \<Rightarrow> bool" where
  "isLetter c = (isLower c \<or> isUpper c)"

text \<open>The class \<open>\w\<close>, which decides the word boundary \<open>\b\<close>.\<close>

definition isWordChar :: "unit16 \<Rightarrow> bool" where
  "isWordChar c = (isUpper c \<or> isLower c \<or> isDigit c \<or> c = ascii CHR ''_'')"

text \<open>
  The case of an ASCII letter. A regular expression with the flag \<open>i\<close> and without the
  flag \<open>u\<close> compares the upper-case forms of single code units and never lets a unit from
  U+0080 on stand for an ASCII character, so for the ASCII patterns of the source it
  compares units up to the case of the ASCII letters.
\<close>

fun lowerUnit :: "unit16 \<Rightarrow> unit16" where
  "lowerUnit (Unit16 h l) =
     (if isUpper (Unit16 h l) then Unit16 h (char_of (code l + 0x20)) else Unit16 h l)"

fun upperUnit :: "unit16 \<Rightarrow> unit16" where
  "upperUnit (Unit16 h l) =
     (if isLower (Unit16 h l) then Unit16 h (char_of (code l - 0x20)) else Unit16 h l)"

subsection \<open>The runtime\<close>

text \<open>
  What a run can observe of the JavaScript runtime besides its arguments. Some of its
  behaviours are left open, and every statement below holds whatever they are: the
  conversion to lower and to upper case of a string that holds a unit from U+0080 on
  (the Unicode tables), and the order in which \<open>Array.prototype.sort\<close> leaves an
  array whose comparison function is not consistent (implementation-defined). The clock
  and the random numbers are the values \<open>Date.now()\<close> and \<open>Math.random()\<close> would
  give; the \<open>k\<close>-th call of the latter gives \<open>mathRandom k\<close>.
\<close>

datatype tally = Tally nat | NotANumber

record runtime =
  unicodeLower :: "jsstring \<Rightarrow> jsstring"
  unicodeUpper :: "jsstring \<Rightarrow> jsstring"
  sortInconsistent :: "(jsstring \<times> tally) list \<Rightarrow> (jsstring \<times> tally) list"
  dateNow :: nat
  mathRandom :: "nat \<Rightarrow> real"

definition toLowerCase :: "runtime \<Rightarrow> jsstring \<Rightarrow> jsstring" where
  "toLowerCase rt s = (if list_all isAscii s then map lowerUnit s else unicodeLower rt s)"

definition toUpperCase :: "runtime \<Rightarrow> jsstring \<Rightarrow> jsstring" where
  "toUpperCase rt s = (if list_all isAscii s then map upperUnit s else unicodeUpper rt s)"

subsection \<open>String methods\<close>

definition trim :: "jsstring \<Rightarrow> jsstring" where
  "trim s = rev (dropWhile isSpace (rev (dropWhile isSpace s)))"

text \<open>
  \<open>s.split(/[...]+/)\<close> for a character class: the pieces between the maximal runs of
  separator units. A separator at either end leaves an empty piece there, and the
  empty string splits into one empty piece.
\<close>

fun splitRuns :: "(unit16 \<Rightarrow> bool) \<Rightarrow> bool \<Rightarrow> jsstring \<Rightarrow> jsstring list" where
  "splitRuns P inSep [] = [[]]"
| "splitRuns P inSep (c # cs) =
     (if P c then (if inSep then splitRuns P True cs else [] # splitRuns P True cs)
      else (case splitRuns P False cs of [] \<Rightarrow> [[c]] | w # ws \<Rightarrow> (c # w) # ws))"

definition split_on :: "(unit16 \<Rightarrow> bool) \<Rightarrow> jsstring \<Rightarrow> jsstring list" where
  "split_on P s = splitRuns P False s"

fun startsWith :: "jsstring \<Rightarrow> jsstring \<Rightarrow> bool" where
  "startsWith s [] = True"
| "startsWith [] (p # ps) = False"
| "startsWith (c # cs) (p # ps) = (c = p \<and> startsWith cs ps)"

definition endsWith :: "jsstring \<Rightarrow> jsstring \<Rightarrow> bool" where
  "endsWith s p = startsWith (rev s) (rev p)"

fun includes_str :: "jsstring \<Rightarrow> jsstring \<Rightarrow> bool" where
  "includes_str [] p = (p = [])"
| "includes_str (c # cs) p = (startsWith (c # cs) p \<or> includes_str cs p)"

text \<open>
  The loop \<open>while ((pos = s.indexOf(p, pos)) !== -1) { n++; pos += p.length; }\<close> for a
  non-empty \<open>p\<close>: the occurrences of \<open>p\<close> found from left to right without overlap.
\<close>

fun countOccurrences :: "jsstring \<Rightarrow> jsstring \<Rightarrow> nat" where
  "countOccurrences [] p = 0"
| "countOccurrences (c # cs) p =
     (if startsWith (c # cs) p then Suc (countOccurrences (drop (length p - 1) cs) p)
      else countOccurrences cs p)"

subsection \<open>Regular expressions\<close>

text \<open>
  The fragment of JavaScript regular expressions the analyzers use: character classes,
  sequence, alternation (left alternative first), greedy bounded repetition and \<open>\b\<close>.
  A match state is the unit before the position (for \<open>\b\<close>) and the rest of the text;
  \<open>matches\<close> lists the states a pattern can end in, in the order backtracking tries
  them, so the head is the match JavaScript reports. Every repeated subpattern of the
  source consumes at least one unit, which is the step \<open>rep\<close> requires.
\<close>

datatype regex =
    Sym "unit16 \<Rightarrow> bool"
  | Eps
  | Seq regex regex
  | Alt regex regex
  | Rep nat "nat option" regex
  | WordB

type_synonym ctx = "unit16 option \<times> jsstring"

fun rep :: "(ctx \<Rightarrow> ctx list) \<Rightarrow> nat \<Rightarrow> nat option \<Rightarrow> nat \<Rightarrow> ctx \<Rightarrow> ctx list" where
  "rep f lo hi 0 c = (if lo = 0 then [c] else [])"
| "rep f lo hi (Suc fuel) c =
     (if hi = Some 0 then []
      else concat (map (rep f (lo - 1) (map_option (\<lambda>h. h - 1) hi) fuel)
                       (filter (\<lambda>c'. length (snd c') < length (snd c)) (f c))))
     @ (if lo = 0 then [c] else [])"

definition atBoundary :: "ctx \<Rightarrow> bool" where
  "atBoundary c =
     ((case fst c of None \<Rightarrow> False | Some p \<Rightarrow> isWordChar p)
        \<noteq> (case snd c of [] \<Rightarrow> False | x # xs \<Rightarrow> isWordChar x))"

primrec matches :: "regex \<Rightarrow> ctx \<Rightarrow> ctx list" where
  "matches (Sym P) c = (case snd c of [] \<Rightarrow> [] | x # xs \<Rightarrow> if P x then [(Some x, xs)] else [])"
| "matches Eps c = [c]"
| "matches (Seq r1 r2) c = concat (map (matches r2) (matches r1 c))"
| "matches (Alt r1 r2) c = matches r1 c @ matches r2 c"
| "matches (Rep lo hi r) c = rep (matches r) lo hi (length (snd c)) c"
| "matches WordB c = (if atBoundary c then [c] else [])"

text \<open>
  \<open>s.matchAll(r)\<close> and \<open>s.match(r)\<close> for a regular expression \<open>r\<close> with the flag \<open>g\<close>
  that is made for the call (a literal in the function, or
  \<open>new RegExp(p.source, p.flags)\<close>): the matched substrings from left to right, each
  search starting where the previous match ended (one unit further after an empty
  match).
\<close>

function matchAllFrom :: "regex \<Rightarrow> unit16 option \<Rightarrow> jsstring \<Rightarrow> jsstring list" where
  "matchAllFrom r prev s =
     (case matches r (prev, s) of
        [] \<Rightarrow> (case s of [] \<Rightarrow> [] | x # xs \<Rightarrow> matchAllFrom r (Some x) xs)
      | (prev', s') # alternatives \<Rightarrow>
          if length s' < length s
          then take (length s - length s') s # matchAllFrom r prev' s'
          else [] # (case s of [] \<Rightarrow> [] | x # xs \<Rightarrow> matchAllFrom r (Some x) xs))"
  by pat_completeness auto
termination
  by (relation "measure (\<lambda>(r, prev, s). length s)") auto

definition matchAll :: "regex \<Rightarrow> jsstring \<Rightarrow> jsstring list" where
  "matchAll r s = matchAllFrom r None s"

text \<open>
  A \<open>RegExp\<close> object: its pattern (with the flag \<open>i\<close> applied), its flag \<open>g\<close> and its
  one mutable property, \<open>lastIndex\<close>. No regular expression of the source has the flag
  \<open>y\<close>.
\<close>

record regexp =
  pattern :: regex
  global :: bool
  lastIndex :: nat

text \<open>The object a regular expression literal evaluates to.\<close>

definition regexLiteral :: "regex \<Rightarrow> bool \<Rightarrow> regexp" where
  "regexLiteral r g = \<lparr> pattern = r, global = g, lastIndex = 0 \<rparr>"

text \<open>
  The search of \<open>RegExpBuiltinExec\<close>: the text left after the first match found from the
  given position on, trying every position up to the end of the text.
\<close>

fun execFrom :: "regex \<Rightarrow> unit16 option \<Rightarrow> jsstring \<Rightarrow> jsstring option" where
  "execFrom r prev [] =
     (case matches r (prev, []) of [] \<Rightarrow> None | (prev', s') # alternatives \<Rightarrow> Some s')"
| "execFrom r prev (x # xs) =
     (case matches r (prev, x # xs) of
        [] \<Rightarrow> execFrom r (Some x) xs
      | (prev', s') # alternatives \<Rightarrow> Some s')"

text \<open>
  \<open>r.test(s)\<close>, which returns the answer and leaves the object updated. With the flag
  \<open>g\<close> the search starts at \<open>lastIndex\<close>, which is then set to the end of the match, or
  to 0 when there is none; without it the search starts at 0 and \<open>lastIndex\<close> is left
  alone.
\<close>

definition RegExp_test :: "regexp \<Rightarrow> jsstring \<Rightarrow> bool \<times> regexp" where
  "RegExp_test r s =
     (if global r then
        (if length s < lastIndex r then (False, r\<lparr>lastIndex := 0\<rparr>)
         else (case execFrom (pattern r)
                      (if lastIndex r = 0 then None else Some (s ! (lastIndex r - 1)))
                      (drop (lastIndex r) s) of
                 None \<Rightarrow> (False, r\<lparr>lastIndex := 0\<rparr>)
               | Some s' \<Rightarrow> (True, r\<lparr>lastIndex := length s - length s'\<rparr>)))
      else (execFrom (pattern r) None s \<noteq> None, r))"

text \<open>\<open>/.../.test(s)\<close> for a literal without the flag \<open>g\<close>.\<close>

definition test :: "regex \<Rightarrow> jsstring \<Rightarrow> bool" where
  "test r s = fst (RegExp_test (regexLiteral r False) s)"

text \<open>Pattern syntax: literal text, with and without the flag \<open>i\<close>, and the quantifiers.\<close>

fun lit :: "jsstring \<Rightarrow> regex" where
  "lit [] = Eps"
| "lit [x] = Sym (\<lambda>c. c = x)"
| "lit (x # y # ys) = Seq (Sym (\<lambda>c. c = x)) (lit (y # ys))"

fun liti :: "jsstring \<Rightarrow> regex" where
  "liti [] = Eps"
| "liti [x] = Sym (\<lambda>c. lowerUnit c = lowerUnit x)"
| "liti (x # y # ys) = Seq (Sym (\<lambda>c. lowerUnit c = lowerUnit x)) (liti (y # ys))"

fun seqs :: "regex list \<Rightarrow> regex" where
  "seqs [] = Eps"
| "seqs [r] = r"
| "seqs (r # q # rs) = Seq r (seqs (q # rs))"

fun alts :: "regex list \<Rightarrow> regex" where
  "alts [] = Eps"
| "alts [r] = r"
| "alts (r # q # rs) = Alt r (alts (q # rs))"

definition opt :: "regex \<Rightarrow> regex" where
  "opt r = Rep 0 (Some 1) r"

definition plus :: "regex \<Rightarrow> regex" where
  "plus r = Rep 1 None r"

definition spaces :: regex where
  "spaces = plus (Sym isSpace)"

definition isSentenceEnd :: "unit16 \<Rightarrow> bool" where
  "isSentenceEnd c = (c = ascii CHR ''.'' \<or> c = ascii CHR ''!'' \<or> c = ascii CHR ''?'')"

text \<open>\<open>text.split(/[.!?]+/).filter(s => s.trim().length > n)\<close>\<close>

definition sentencesOf :: "nat \<Rightarrow> jsstring \<Rightarrow> jsstring list" where
  "sentencesOf n text = filter (\<lambda>s. n < length (trim s)) (split_on isSentenceEnd text)"

text \<open>\<open>text.split(/\s+/).slice(0, 400).join(' ')\<close>, the input sent to a model.\<close>

definition truncated :: "jsstring \<Rightarrow> jsstring" where
  "truncated text = join (js '' '') (take 400 (split_on isSpace text))"

datatype level = Low | Medium | High

record content =
  title :: jsstring
  body :: jsstring
  meta :: jsstring
  author :: jsstring
  date :: jsstring
  source :: jsstring

record signal_result =
  level :: level
  score :: int
  explanation :: jsstring

section \<open>Inference client: \<open>hfInference\<close>\<close>

datatype js_error = TypeError | SyntaxError | NetworkError | TimeoutError

text \<open>
  What one \<open>fetch\<close> does: it rejects (network failure, or the 25 s abort signal), or it
  yields a response with a status and a body; \<open>res.json()\<close> then rejects on a body that
  is not JSON, or yields the parsed value, which may be \<open>null\<close> (\<open>None\<close>).
\<close>

datatype 'j json_body = Unparseable | Parsed "'j option"

datatype 'j fetch_outcome = Rejected js_error | Response nat "'j json_body"

datatype io_event = Fetch | Sleep nat

definition res_ok :: "nat \<Rightarrow> bool" where
  "res_ok status = (200 \<le> status \<and> status \<le> 299)"

definition catch_null :: "js_error + 'j option \<Rightarrow> js_error + 'j option" where
  "catch_null r = (case r of Inl e \<Rightarrow> Inr None | Inr v \<Rightarrow> Inr v)"

text \<open>
  \<open>net k\<close> is the outcome of the \<open>k\<close>-th request. The result pairs the value the promise
  settles with (\<open>Inl\<close>: it rejects) with the requests and timers the call has issued.
  The recursive call is returned without \<open>await\<close>, so the outer \<open>catch\<close> does not
  cover it.
\<close>

function hfInference ::
  "(nat \<Rightarrow> 'j fetch_outcome) \<Rightarrow> nat \<Rightarrow> bool \<Rightarrow> (js_error + 'j option) \<times> io_event list" where
  "hfInference net n retried =
     (case net n of
        Rejected e \<Rightarrow> (catch_null (Inl e), [Fetch])
      | Response status b \<Rightarrow>
          if status = 503 \<and> \<not> retried then
            (case hfInference net (Suc n) True of
               (r, evs) \<Rightarrow> (r, Fetch # Sleep 10000 # evs))
          else if \<not> res_ok status then (catch_null (Inr None), [Fetch])
          else (case b of
                  Unparseable \<Rightarrow> (catch_null (Inl SyntaxError), [Fetch])
                | Parsed v \<Rightarrow> (catch_null (Inr v), [Fetch])))"
  by pat_completeness auto
termination
  by (relation "measure (\<lambda>(net, n, retried). if retried then 0 else 1)") auto

subsection \<open>Typed wrappers\<close>

text \<open>
  The parsed body of a model response is taken typed: something that is not an array
  (an error object, say), or an array. A classifier's array holds lists of
  \<open>{label, score}\<close> entries, bare entries, or \<open>null\<close>; the entity model's array holds
  entities. Labels and words are strings and scores are numbers.
\<close>

datatype 'a hf_json = NotArray | Array "'a list"

datatype class_entry = ClassEntry (label: jsstring) (entry_score: real)

datatype hf_item = ItemNull | ItemEntry class_entry | ItemList "class_entry list"

text \<open>
  \<open>const labels = result[0] ?? result\<close> and the first use of \<open>labels\<close>: an empty
  array stands for itself; a leading list of entries is taken; a leading \<open>null\<close> leaves
  the outer array, whose first element has no \<open>label\<close>, and a leading bare entry is an
  object that is neither iterable nor has \<open>find\<close>, so both raise a TypeError.
\<close>

fun labelsOf :: "hf_item list \<Rightarrow> js_error + class_entry list" where
  "labelsOf [] = Inr []"
| "labelsOf (ItemList es # rest) = Inr es"
| "labelsOf (ItemNull # rest) = Inl TypeError"
| "labelsOf (ItemEntry e # rest) = Inl TypeError"

type_synonym 'j inference = "jsstring \<Rightarrow> nat \<Rightarrow> 'j fetch_outcome"

definition detectSynthetic :: "hf_item hf_json inference \<Rightarrow> jsstring \<Rightarrow> js_error + real option" where
  "detectSynthetic hf text =
     (case fst (hfInference (hf (truncated text)) 0 False) of
        Inl e \<Rightarrow> Inl e
      | Inr None \<Rightarrow> Inr None
      | Inr (Some NotArray) \<Rightarrow> Inr None
      | Inr (Some (Array result)) \<Rightarrow>
          (case labelsOf result of
             Inl e \<Rightarrow> Inl e
           | Inr labels \<Rightarrow>
               (case find (\<lambda>l. label l = js ''LABEL_1'' \<or> label l = js ''Fake'') labels of
                  None \<Rightarrow> Inr None
                | Some fakeLabel \<Rightarrow> Inr (Some (entry_score fakeLabel)))))"

datatype hf_entity =
  HfEntity (hf_word: jsstring) (hf_entity_group: "jsstring option") (hf_entity: "jsstring option")
    (hf_score: real)

record entity =
  word :: jsstring
  entity_group :: jsstring
  entity_score :: real

record ner_result =
  person_count :: nat
  org_count :: nat
  entities :: "entity list"

text \<open>\<open>e.entity_group ?? (e.entity?.replace(/^[BI]-/, '') || 'MISC')\<close>\<close>

definition entityGroupOf :: "hf_entity \<Rightarrow> jsstring" where
  "entityGroupOf e =
     (case hf_entity_group e of
        Some g \<Rightarrow> g
      | None \<Rightarrow>
          (case hf_entity e of
             None \<Rightarrow> js ''MISC''
           | Some t \<Rightarrow>
               (let stripped = (if startsWith t (js ''B-'') \<or> startsWith t (js ''I-'') then drop 2 t else t)
                in if truthy stripped then stripped else js ''MISC'')))"

definition analyzeEntities :: "hf_entity hf_json inference \<Rightarrow> jsstring \<Rightarrow> js_error + ner_result option" where
  "analyzeEntities hf text =
     (case fst (hfInference (hf (truncated text)) 0 False) of
        Inl e \<Rightarrow> Inl e
      | Inr None \<Rightarrow> Inr None
      | Inr (Some NotArray) \<Rightarrow> Inr None
      | Inr (Some (Array result)) \<Rightarrow>
          (let ents = map (\<lambda>e. \<lparr> word = hf_word e, entity_group = entityGroupOf e,
                                   entity_score = hf_score e \<rparr>) result;
               persons = filter (\<lambda>e. entity_group e = js ''PER'') ents;
               orgs = filter (\<lambda>e. entity_group e = js ''ORG'') ents;
               uniquePersons = newSet (map word persons);
               uniqueOrgs = newSet (map word orgs)
           in Inr (Some \<lparr> person_count = length uniquePersons,
                            org_count = length uniqueOrgs,
                            entities = ents \<rparr>)))"

record sentiment =
  sentiment_label :: jsstring
  sentiment_score :: real
  scores :: "(jsstring \<times> real) list"

text \<open>\<open>s.replace(p, r)\<close> for a string pattern: the first occurrence only.\<close>

fun replaceFirst :: "jsstring \<Rightarrow> jsstring \<Rightarrow> jsstring \<Rightarrow> jsstring" where
  "replaceFirst p r [] = (if p = [] then r else [])"
| "replaceFirst p r (c # cs) =
     (if startsWith (c # cs) p then r @ drop (length p) (c # cs) else c # replaceFirst p r cs)"

text \<open>
  A plain object is kept as the list of its own properties in the order in which
  \<open>Object.entries\<close> and \<open>JSON.stringify\<close> list them: the array indices (the decimal
  numerals without a leading zero up to \<open>2^32 - 2\<close>) in ascending order, then the other
  keys in the order of their creation.
\<close>

definition numeralValue :: "jsstring \<Rightarrow> nat" where
  "numeralValue k = foldl (\<lambda>n d. 10 * n + (case d of Unit16 h l \<Rightarrow> code l - 0x30)) 0 k"

definition isArrayIndex :: "jsstring \<Rightarrow> bool" where
  "isArrayIndex k =
     (case k of
        [] \<Rightarrow> False
      | d # ds \<Rightarrow> list_all isDigit k \<and> (ds = [] \<or> d \<noteq> ascii (CHR ''0''))
                  \<and> numeralValue k < 4294967295)"

fun replaceProp :: "jsstring \<Rightarrow> 'v \<Rightarrow> (jsstring \<times> 'v) list \<Rightarrow> (jsstring \<times> 'v) list" where
  "replaceProp k v [] = []"
| "replaceProp k v ((k', v') # kvs) =
     (if k' = k then (k, v) # kvs else (k', v') # replaceProp k v kvs)"

fun insertIndex :: "nat \<Rightarrow> jsstring \<Rightarrow> 'v \<Rightarrow> (jsstring \<times> 'v) list \<Rightarrow> (jsstring \<times> 'v) list" where
  "insertIndex n k v [] = [(k, v)]"
| "insertIndex n k v ((k', v') # kvs) =
     (if isArrayIndex k' \<and> numeralValue k' < n then (k', v') # insertIndex n k v kvs
      else (k, v) # (k', v') # kvs)"

text \<open>
  \<open>obj[k] = v\<close> for a value \<open>v\<close> that is not an object. A property that exists keeps
  its place; the key \<open>__proto__\<close> reaches the setter inherited from
  \<open>Object.prototype\<close>, which ignores such a value.
\<close>

definition setProp :: "jsstring \<Rightarrow> 'v \<Rightarrow> (jsstring \<times> 'v) list \<Rightarrow> (jsstring \<times> 'v) list" where
  "setProp k v obj =
     (if k = js ''__proto__'' then obj
      else (case map_of obj k of
              Some old \<Rightarrow> replaceProp k v obj
            | None \<Rightarrow> if isArrayIndex k then insertIndex (numeralValue k) k v obj
                      else obj @ [(k, v)]))"

text \<open>The body of \<open>for (const l of labels)\<close> in \<open>analyzeSentiment\<close>.\<close>

definition sentimentStep ::
  "runtime \<Rightarrow> (jsstring \<times> real) list \<times> class_entry option \<Rightarrow> class_entry
     \<Rightarrow> (jsstring \<times> real) list \<times> class_entry option" where
  "sentimentStep rt st l =
     (let key = replaceFirst (js ''label_'') [] (toLowerCase rt (label l));
          friendlyKey = (if key = js ''0'' then js ''negative'' else if key = js ''1'' then js ''neutral''
                         else if key = js ''2'' then js ''positive'' else key);
          scores' = setProp friendlyKey (entry_score l) (fst st);
          topScore = (case snd st of None \<Rightarrow> 0 | Some t \<Rightarrow> entry_score t)
      in (scores', if entry_score l > topScore then Some l else snd st))"

definition analyzeSentiment ::
  "runtime \<Rightarrow> hf_item hf_json inference \<Rightarrow> jsstring \<Rightarrow> js_error + sentiment option" where
  "analyzeSentiment rt hf text =
     (case fst (hfInference (hf (truncated text)) 0 False) of
        Inl e \<Rightarrow> Inl e
      | Inr None \<Rightarrow> Inr None
      | Inr (Some NotArray) \<Rightarrow> Inr None
      | Inr (Some (Array result)) \<Rightarrow>
          (case labelsOf result of
             Inl e \<Rightarrow> Inl e
           | Inr labels \<Rightarrow>
               (case foldl (sentimentStep rt) ([], case labels of [] \<Rightarrow> None | l # ls \<Rightarrow> Some l) labels of
                  (scores', None) \<Rightarrow> Inl TypeError
                | (scores', Some topLabel) \<Rightarrow>
                    (let friendlyTop =
                           (if label topLabel = js ''0'' then js ''negative''
                            else if label topLabel = js ''1'' then js ''neutral''
                            else if label topLabel = js ''2'' then js ''positive''
                            else toLowerCase rt (label topLabel))
                     in Inr (Some \<lparr> sentiment_label = friendlyTop,
                                      sentiment_score = entry_score topLabel,
                                      scores = scores' \<rparr>)))))"

section \<open>Synthetic text analyzer: \<open>syntheticText.js\<close>\<close>

definition LLM_PHRASES :: "jsstring list" where
  "LLM_PHRASES =
     map js [''it's important to note'', ''it is important to'', ''it's worth noting'',
      ''it is worth mentioning'', ''in conclusion'', ''in summary'', ''to summarize'',
      ''overall,'', ''in today's world'', ''in this day and age'', ''let's dive in'',
      ''delve into'', ''delve deeper'', ''it's crucial to'', ''plays a crucial role'',
      ''navigating the'', ''landscape of'', ''tapestry of'', ''multifaceted'', ''a myriad of'',
      ''furthermore,'', ''moreover,'', ''additionally,'', ''consequently,'', ''nevertheless,'',
      ''comprehensive guide'', ''whether you're a'', ''in the realm of'',
      ''shed light on'', ''foster a sense of'', ''embark on'',
      ''stands as a testament'', ''serves as a reminder'', ''underscores the importance'']"

definition transitions :: "jsstring list" where
  "transitions = map js [''however'', ''therefore'', ''furthermore'', ''moreover'', ''additionally'',
                  ''consequently'', ''nevertheless'']"

text \<open>\<open>/\b[a-z]+\b/g\<close>\<close>

definition lowerWordRegex :: regex where
  "lowerWordRegex = seqs [WordB, plus (Sym isLower), WordB]"

definition heuristicSyntheticScore :: "runtime \<Rightarrow> jsstring \<Rightarrow> real" where
  "heuristicSyntheticScore rt text =
     (let lower = toLowerCase rt text;
          sentences = sentencesOf 5 lower
      in if length sentences < 3 then 0
         else
          (let phraseMatches = foldl (+) 0 (map (countOccurrences lower) LLM_PHRASES);
               phraseDensity = real phraseMatches / real (length sentences);
               signals1 = (if 0.15 < phraseDensity then 3 else if 0.05 < phraseDensity then 1 else 0);
               sentLengths = map (\<lambda>s. length (split_on isSpace (trim s))) sentences;
               avg = real (foldl (+) 0 sentLengths) / real (length sentLengths);
               variance = foldl (\<lambda>sum l. sum + (real l - avg) ^ 2) 0 sentLengths
                            / real (length sentLengths);
               cv = sqrt variance / (if avg = 0 then 1 else avg);
               signals2 = signals1
                  + (if cv < 0.25 \<and> 5 < length sentences then 2
                     else if cv < 0.35 \<and> 5 < length sentences then 1 else 0);
               words = matchAll lowerWordRegex lower;
               ttr = real (length (newSet words))
                       / real (if length words = 0 then 1 else length words);
               signals3 = signals2
                  + (if 100 < length words \<and> 0.35 < ttr \<and> ttr < 0.55 then 1 else 0);
               transCount = foldl (+) 0 (map (countOccurrences lower) transitions);
               transDensity = real transCount
                       / real (if length sentences = 0 then 1 else length sentences);
               signals4 = signals3
                  + (if 0.2 < transDensity then 2 else if 0.1 < transDensity then 1 else (0::nat))
           in min (real signals4 / 9) 1))"

text \<open>
  The comparison \<open>Math.sqrt(v) / d < t\<close>, named so that it can be given a code equation
  without the square root.
\<close>

definition sqrtRatioLess :: "real \<Rightarrow> real \<Rightarrow> real \<Rightarrow> bool" where
  "sqrtRatioLess v d t = (sqrt v / d < t)"

definition mlSyntheticScore :: "hf_item hf_json inference \<Rightarrow> jsstring \<Rightarrow> js_error + real option" where
  "mlSyntheticScore hf text = detectSynthetic hf text"

record ml_signal_result = signal_result +
  modelUsed :: "bool option"

record synthetic_result = ml_signal_result +
  syntheticProbability :: "int option"

text \<open>The table \<open>explanations\<close>, read at \<open>level\<close>.\<close>

definition syntheticExplanation :: "level \<Rightarrow> real \<Rightarrow> jsstring \<Rightarrow> jsstring" where
  "syntheticExplanation level' combined source' =
     (case level' of
        Low \<Rightarrow> js ''Text patterns are consistent with human writing. Assessed using ''
                 @ source' @ js ''.''
      | Medium \<Rightarrow> js ''Some patterns resemble LLM-generated content (''
                 @ intToString (Math_round (combined * 100))
                 @ js ''% synthetic probability). Assessed using '' @ source' @ js ''.''
      | High \<Rightarrow> js ''Strong indicators suggest this text may be AI-generated (''
                 @ intToString (Math_round (combined * 100))
                 @ js ''% synthetic probability). Assessed using '' @ source' @ js ''.'')"

definition analyzeSyntheticText ::
  "runtime \<Rightarrow> hf_item hf_json inference \<Rightarrow> content \<Rightarrow> js_error + synthetic_result" where
  "analyzeSyntheticText rt hf c =
     (let text = body c;
          sentences = sentencesOf 5 text
      in if length sentences < 3 then
           Inr \<lparr> level = Low, score = 10,
                 explanation = js ''Text is too short for meaningful synthetic pattern analysis.'',
                 modelUsed = Some False, syntheticProbability = None \<rparr>
         else
          (let heuristicRaw = heuristicSyntheticScore rt text in
           case mlSyntheticScore hf text of
             Inl e \<Rightarrow> Inl e
           | Inr mlRaw \<Rightarrow>
              (let modelUsed' = (mlRaw \<noteq> None);
                   combined = (case mlRaw of
                                 Some p \<Rightarrow> p * 0.7 + heuristicRaw * 0.3
                               | None \<Rightarrow> heuristicRaw);
                   score' = Math_round (combined * 100);
                   level' = (if 60 \<le> score' then High else if 30 \<le> score' then Medium else Low);
                   source' = (if modelUsed' then js ''RoBERTa classifier (roberta-base-openai-detector)''
                              else js ''heuristic analysis (ML service unavailable)'');
                   explanation' = syntheticExplanation level' combined source'
               in Inr \<lparr> level = level', score = score', explanation = explanation',
                         modelUsed = Some modelUsed',
                         syntheticProbability = Some (Math_round (combined * 100)) \<rparr>)))"

section \<open>Sourcing analyzer: \<open>sourcing.js\<close>\<close>

text \<open>\<open>[A-Z][a-zA-Z\s]+\<close>, the captured name of the first three attribution patterns.\<close>

definition capitalisedWords :: regex where
  "capitalisedWords = Seq (Sym isUpper) (plus (Sym (\<lambda>c. isLetter c \<or> isSpace c)))"

text \<open>\<open>[A-Z][a-zA-Z]+\<close>\<close>

definition capitalisedWord :: regex where
  "capitalisedWord = Seq (Sym isUpper) (plus (Sym isLetter))"

definition ATTRIBUTION_PATTERNS :: "regex list" where
  "ATTRIBUTION_PATTERNS =
     [seqs [lit (js ''according to ''), capitalisedWords],
      seqs [alts (map lit (map js [''said'', ''stated'', ''reported'', ''confirmed'', ''announced'',
                           ''disclosed'', ''revealed''])),
            lit (js '' ''), opt (lit (js ''by '')), capitalisedWords],
      seqs [alts (map lit (map js [''study'', ''report'', ''analysis'', ''investigation'', ''research''])),
            lit (js '' ''), alts (map lit (map js [''by'', ''from'', ''conducted by''])), lit (js '' ''),
            capitalisedWords],
      seqs [capitalisedWord, plus (Seq (Sym isSpace) capitalisedWord), opt (lit (js '','')), spaces,
            opt (alts [lit (js ''a ''), lit (js ''the '')]),
            alts (map lit (map js [''professor'', ''researcher'', ''analyst'', ''expert'', ''director'',
                           ''spokesperson'', ''official'']))]]"

definition ANONYMOUS_PATTERNS :: "regex list" where
  "ANONYMOUS_PATTERNS =
     [seqs [liti (js ''source''), opt (liti (js ''s'')), spaces,
            alts (map liti (map js [''say'', ''said'', ''claim'', ''report'', ''indicate'', ''suggest'',
                            ''familiar with'']))],
      seqs [alts (map liti (map js [''unnamed'', ''anonymous'', ''undisclosed''])), spaces,
            liti (js ''source''), opt (liti (js ''s''))],
      seqs [liti (js ''peopl''), opt (liti (js ''e'')), spaces,
            alts (map liti (map js [''close to'', ''familiar with'', ''with knowledge of'', ''briefed on'']))],
      seqs [alts [Seq (liti (js ''expert'')) (opt (liti (js ''s''))), Seq (liti (js ''official'')) (opt (liti (js ''s''))),
                  Seq (liti (js ''insider'')) (opt (liti (js ''s''))), Seq (liti (js ''analyst'')) (opt (liti (js ''s'')))],
            spaces,
            alts (map liti (map js [''say'', ''said'', ''believe'', ''warn'', ''predict'', ''suggest'']))],
      seqs [alts (map liti (map js [''it is'', ''it's''])), spaces,
            alts (map liti (map js [''believed'', ''thought'', ''rumored'', ''said'', ''reported''])), spaces,
            liti (js ''that'')],
      seqs [alts (map liti (map js [''many'', ''some'', ''several''])), spaces,
            alts (map liti (map js [''people'', ''experts'', ''analysts'', ''observers''])), spaces,
            alts (map liti (map js [''say'', ''believe'', ''think'']))]]"

definition CLAIM_INDICATORS :: "regex list" where
  "CLAIM_INDICATORS =
     [seqs [alts (map liti (map js [''will'', ''would'', ''could'', ''should'', ''might''])), spaces,
            alts (map liti (map js [''cause'', ''lead to'', ''result in'', ''create'', ''destroy'', ''change'']))],
      seqs [alts (map liti (map js [''always'', ''never'', ''every'', ''all'', ''none''])), spaces],
      seqs [alts (map liti (map js [''proven'', ''confirmed'', ''debunked'', ''exposed'', ''revealed''])), spaces,
            alts (map liti (map js [''that'', ''to'']))],
      alts (map liti (map js [''studies show'', ''research shows'', ''science says'', ''data shows'',
                      ''evidence shows'']))]"

text \<open>\<open>/https?:\/\/[^\s)>]+/g\<close>\<close>

definition linkRegex :: regex where
  "linkRegex = seqs [lit (js ''http''), opt (lit (js ''s'')), lit (js ''://''),
                     plus (Sym (\<lambda>c. \<not> (isSpace c \<or> c = ascii (CHR '')'') \<or> c = ascii (CHR ''>''))))]"

text \<open>The three counting loops: one more for every match of every pattern.\<close>

definition regexSourceCount :: "jsstring \<Rightarrow> nat" where
  "regexSourceCount text = foldl (\<lambda>named p. named + length (matchAll p text)) 0 ATTRIBUTION_PATTERNS"

definition regexAnonCount :: "jsstring \<Rightarrow> nat" where
  "regexAnonCount text = foldl (\<lambda>anon p. anon + length (matchAll p text)) 0 ANONYMOUS_PATTERNS"

definition claimCount :: "jsstring \<Rightarrow> nat" where
  "claimCount text = foldl (\<lambda>claims p. claims + length (matchAll p text)) 0 CLAIM_INDICATORS"

definition mlEntityData :: "hf_entity hf_json inference \<Rightarrow> jsstring \<Rightarrow> js_error + ner_result option" where
  "mlEntityData hf text = analyzeEntities hf text"

record sourcing_details =
  namedSources :: nat
  anonymousClaims :: nat
  externalLinks :: nat
  namedEntities :: "jsstring list"

record sourcing_result = ml_signal_result +
  details :: "sourcing_details option"

text \<open>The three branches that build \<open>explanation\<close>.\<close>

definition sourcingExplanation ::
  "level \<Rightarrow> nat \<Rightarrow> jsstring list \<Rightarrow> nat \<Rightarrow> nat \<Rightarrow> nat \<Rightarrow> jsstring \<Rightarrow> jsstring" where
  "sourcingExplanation level' namedSources' uniqueNames links anonClaims unattributed source' =
     (if level' = Low then
        js ''Strong sourcing: '' @ natToString namedSources' @ js '' named entity''
          @ (if namedSources' \<noteq> 1 then js ''ies'' else js ''y'') @ js '' identified''
          @ (if length uniqueNames \<noteq> 0
             then js '' ('' @ join (js '', '') (take 3 uniqueNames) @ js '')'' else [])
          @ js '' with '' @ natToString links @ js '' external link''
          @ (if links \<noteq> 1 then js ''s'' else []) @ js ''. Assessed via '' @ source' @ js ''.''
      else if level' = Medium then
        js ''Limited sourcing: '' @ natToString namedSources' @ js '' named source''
          @ (if namedSources' \<noteq> 1 then js ''s'' else []) @ js '' vs ''
          @ natToString (anonClaims + unattributed) @ js '' unsupported or anonymous claim''
          @ (if anonClaims + unattributed \<noteq> 1 then js ''s'' else [])
          @ js ''. Assessed via '' @ source' @ js ''.''
      else
        js ''Weak sourcing: ''
          @ (if 0 < anonClaims
             then natToString anonClaims @ js '' anonymous reference''
                    @ (if anonClaims \<noteq> 1 then js ''s'' else []) @ js ''. ''
             else [])
          @ js ''Claims lack clear attribution to named, verifiable sources. Assessed via ''
          @ source' @ js ''.'')"

definition analyzeSourcing :: "hf_entity hf_json inference \<Rightarrow> content \<Rightarrow> js_error + sourcing_result" where
  "analyzeSourcing hf c =
     (let text = body c;
          sentences = sentencesOf 10 text
      in if length sentences < 2 then
           Inr \<lparr> level = Medium, score = 50,
                 explanation = js ''Text is too short to meaningfully assess sourcing patterns.'',
                 modelUsed = None, details = None \<rparr>
         else
          (case mlEntityData hf text of
             Inl e \<Rightarrow> Inl e
           | Inr mlEntities \<Rightarrow>
              (let anonClaims = regexAnonCount text;
                   unattributed = claimCount text;
                   links = length (matchAll linkRegex text);
                   modelUsed' = (mlEntities \<noteq> None);
                   namedSources' = (case mlEntities of
                                      Some m \<Rightarrow> person_count m + org_count m
                                    | None \<Rightarrow> regexSourceCount text);
                   uniqueNames = (case mlEntities of
                                    Some m \<Rightarrow> newSet (map word
                                      (filter (\<lambda>e. entity_group e = js ''PER'' \<or> entity_group e = js ''ORG'')
                                         (entities m)))
                                  | None \<Rightarrow> []);
                   score0 = (50::int);
                   score1 = score0 - min (int namedSources' * 8) 30;
                   score2 = score1 + min (int anonClaims * 5) 15;
                   score3 = score2 + min (int unattributed * 3) 20;
                   score4 = score3 - min (int links * 3) 10;
                   score5 = (if truthy (author c) then score4 - 5 else score4);
                   score' = max 5 (min 95 score5);
                   level' = (if 60 \<le> score' then High else if 35 \<le> score' then Medium else Low);
                   source' = (if modelUsed' then js ''bert-base-NER'' else js ''pattern matching (ML unavailable)'');
                   explanation' = sourcingExplanation level' namedSources' uniqueNames links
                                    anonClaims unattributed source'
               in Inr \<lparr> level = level', score = score', explanation = explanation',
                         modelUsed = Some modelUsed',
                         details = Some \<lparr> namedSources = namedSources',
                                          anonymousClaims = anonClaims,
                                          externalLinks = links,
                                          namedEntities = take 6 uniqueNames \<rparr> \<rparr>)))"

section \<open>Linguistic risk analyzer: \<open>linguistic.js\<close>\<close>

definition EMOTIONAL_INTENSIFIERS :: "jsstring list" where
  "EMOTIONAL_INTENSIFIERS =
     map js [''shocking'', ''outrageous'', ''horrifying'', ''terrifying'', ''unbelievable'', ''incredible'',
      ''amazing'', ''devastating'', ''explosive'', ''bombshell'', ''disgusting'', ''sickening'',
      ''insane'', ''crazy'', ''mindblowing'', ''mind-blowing'', ''jaw-dropping'', ''earth-shattering'',
      ''catastrophic'', ''apocalyptic'', ''nightmare'', ''disaster'', ''crisis'', ''emergency'',
      ''urgent'', ''warning'', ''danger'', ''alarming'']"

definition CERTAINTY_WITHOUT_EVIDENCE :: "jsstring list" where
  "CERTAINTY_WITHOUT_EVIDENCE =
     map js [''undeniable'', ''undeniably'', ''irrefutable'', ''irrefutably'', ''proven beyond doubt'',
      ''without question'', ''no doubt'', ''absolutely certain'', ''definitely'', ''guaranteed'',
      ''the truth is'', ''the fact is'', ''the reality is'', ''everyone knows'', ''it's obvious'',
      ''obviously'', ''clearly'', ''unquestionably'', ''indisputably'', ''beyond any doubt'',
      ''without a doubt'', ''100%'', ''impossible'', ''literally impossible'']"

definition MISINFO_TROPES :: "jsstring list" where
  "MISINFO_TROPES =
     map js [''they don't want you to know'', ''what they're not telling you'',
      ''the media won't report'', ''mainstream media'', ''msm'', ''the government doesn't want'',
      ''big pharma'', ''follow the money'', ''wake up'', ''sheeple'', ''do your own research'',
      ''exposed'', ''cover-up'', ''cover up'', ''suppressed'', ''the real story'', ''hidden truth'',
      ''secret agenda'', ''conspiracy'', ''deep state'', ''controlled opposition'', ''false flag'',
      ''plandemic'', ''hoax'', ''scam'', ''psyop'', ''propaganda'', ''brainwashed'',
      ''just asking questions'', ''think about it'', ''open your eyes'', ''connect the dots'']"

definition ACRONYMS :: "jsstring list" where
  "ACRONYMS = map js [''URL'', ''HTML'', ''API'', ''USA'', ''FBI'', ''CIA'', ''CEO'', ''NASA'', ''UN'', ''EU'',
               ''UK'', ''WHO'', ''GDP'', ''DNA'', ''COVID'', ''NYC'', ''NFL'', ''NBA'']"

text \<open>\<open>new RegExp(`\\b${w}\\b`, 'g')\<close> and \<open>/\b[A-Z]{3,}\b/g\<close>\<close>

definition wholeWord :: "jsstring \<Rightarrow> regex" where
  "wholeWord w = seqs [WordB, lit w, WordB]"

definition capsWordRegex :: regex where
  "capsWordRegex = seqs [WordB, Rep 3 None (Sym isUpper), WordB]"

record heuristics =
  emotionalIntensity :: real
  certaintyHits :: nat
  tropeHits :: nat
  sentences :: nat

definition heuristicSignals :: "runtime \<Rightarrow> jsstring \<Rightarrow> heuristics" where
  "heuristicSignals rt text =
     (let lower = toLowerCase rt text;
          sentences' = sentencesOf 5 text;
          emotionalHits = foldl (\<lambda>hits w. hits + length (matchAll (wholeWord w) lower)) 0
                            EMOTIONAL_INTENSIFIERS;
          exclamations = length (matchAll (lit (js ''!'')) text);
          capsWords = length (filter (\<lambda>w. w \<notin> set ACRONYMS) (matchAll capsWordRegex text));
          emotionalIntensity' =
            real (emotionalHits * 2 + exclamations + capsWords)
              / real (if length sentences' = 0 then 1 else length sentences');
          certaintyHits' = length (filter (includes_str lower) CERTAINTY_WITHOUT_EVIDENCE);
          tropeHits' = length (filter (includes_str lower) MISINFO_TROPES)
      in \<lparr> emotionalIntensity = emotionalIntensity', certaintyHits = certaintyHits',
            tropeHits = tropeHits', sentences = length sentences' \<rparr>)"

definition mlSentiment ::
  "runtime \<Rightarrow> hf_item hf_json inference \<Rightarrow> jsstring \<Rightarrow> js_error + sentiment option" where
  "mlSentiment rt hf text = analyzeSentiment rt hf text"

text \<open>\<open>obj[k]\<close>, with \<open>undefined\<close> as \<open>None\<close>.\<close>

definition getProp :: "(jsstring \<times> 'v) list \<Rightarrow> jsstring \<Rightarrow> 'v option" where
  "getProp obj k = map_of obj k"

record sentiment_details =
  details_label :: jsstring
  details_scores :: "(jsstring \<times> real) list"

record linguistic_details =
  details_emotionalIntensity :: real
  certaintyWithoutEvidence :: nat
  narrativeTropes :: nat
  details_sentiment :: "sentiment_details option"

record linguistic_result = ml_signal_result +
  linguistic_details :: "linguistic_details option"

text \<open>The three branches that build \<open>explanation\<close>.\<close>

definition linguisticExplanation ::
  "level \<Rightarrow> heuristics \<Rightarrow> sentiment option \<Rightarrow> real \<Rightarrow> jsstring \<Rightarrow> jsstring" where
  "linguisticExplanation level' h sentiment' negScore source' =
     (if level' = Low then
        js ''Language appears measured and informational. ''
          @ (case sentiment' of
               Some s \<Rightarrow> js ''Sentiment model: '' @ sentiment_label s @ js ''. ''
             | None \<Rightarrow> [])
          @ js ''No significant manipulation patterns detected.''
      else if level' = Medium then
        (let parts =
               (if 0.2 < emotionalIntensity h then [js ''elevated emotional language''] else [])
             @ (if 0 < certaintyHits h
                then [js ''certainty claims without cited evidence''] else [])
             @ (if 0 < tropeHits h then [js ''some misleading content patterns''] else [])
             @ (if sentiment' \<noteq> None \<and> 0.5 < negScore
                then [js ''strongly negative sentiment ('' @ source' @ js '')''] else [])
         in js ''Moderate linguistic risk: ''
              @ (if truthy (join (js '', '') parts) then join (js '', '') parts
                 else js ''patterns warrant attention'')
              @ js ''.'')
      else
        (let parts =
               (if 2 \<le> tropeHits h
                then [natToString (tropeHits h) @ js '' misinformation narrative patterns'']
                else [])
             @ (if 2 < certaintyHits h
                then [js ''multiple unsupported certainty claims''] else [])
             @ (if 0.5 < emotionalIntensity h then [js ''high emotional intensity''] else [])
             @ (case sentiment' of
                  Some s \<Rightarrow> [js ''sentiment: '' @ sentiment_label s @ js '' ('' @ source' @ js '')'']
                | None \<Rightarrow> [])
         in js ''Significant linguistic risk: '' @ join (js ''; '') parts @ js ''.''))"

definition analyzeLinguistic ::
  "runtime \<Rightarrow> hf_item hf_json inference \<Rightarrow> content \<Rightarrow> js_error + linguistic_result" where
  "analyzeLinguistic rt hf c =
     (let text = body c;
          wordCount = length (split_on isSpace text)
      in if wordCount < 15 then
           Inr \<lparr> level = Low, score = 15,
                 explanation = js ''Text is too short for meaningful linguistic risk analysis.'',
                 modelUsed = None, linguistic_details = None \<rparr>
         else
          (case mlSentiment rt hf text of
             Inl e \<Rightarrow> Inl e
           | Inr sentiment' \<Rightarrow>
              (let h = heuristicSignals rt text;
                   modelUsed' = (sentiment' \<noteq> None);
                   negScore = (case sentiment' of
                                 None \<Rightarrow> 0
                               | Some s \<Rightarrow> (case getProp (scores s) (js ''negative'') of
                                              None \<Rightarrow> 0 | Some v \<Rightarrow> v));
                   sentimentRisk = (if modelUsed' then
                                      (if 0.7 < negScore then 3 else if 0.5 < negScore then 2
                                       else if 0.3 < negScore then 1 else 0)
                                    else 0);
                   totalRisk1 = (0::int) + sentimentRisk;
                   totalRisk2 = totalRisk1
                      + (if 0.5 < emotionalIntensity h then 3
                         else if 0.2 < emotionalIntensity h then 1 else 0);
                   certaintyDensity = real (certaintyHits h)
                                        / real (if sentences h = 0 then 1 else sentences h);
                   totalRisk3 = totalRisk2
                      + (if 0.15 < certaintyDensity then 3
                         else if 0.05 < certaintyDensity then 1 else 0);
                   totalRisk = totalRisk3
                      + (if 3 \<le> tropeHits h then 3
                         else if 1 \<le> tropeHits h then int (tropeHits h) else 0);
                   maxRisk = (if modelUsed' then 12 else 10);
                   score' = max 5 (min 95 (Math_round (real_of_int totalRisk / maxRisk * 100)));
                   level' = (if 55 \<le> score' then High else if 25 \<le> score' then Medium else Low);
                   source' = (case sentiment' of
                                Some s \<Rightarrow> js ''twitter-roberta-base-sentiment ('' @ sentiment_label s
                                            @ js '', '' @ intToString (Math_round (sentiment_score s * 100))
                                            @ js ''% confidence)''
                              | None \<Rightarrow> js ''heuristic analysis (ML unavailable)'');
                   explanation' = linguisticExplanation level' h sentiment' negScore source'
               in Inr \<lparr> level = level', score = score', explanation = explanation',
                         modelUsed = Some modelUsed',
                         linguistic_details = Some
                           \<lparr> details_emotionalIntensity =
                                 real_of_int (Math_round (emotionalIntensity h * 100)) / 100,
                              certaintyWithoutEvidence = certaintyHits h,
                              narrativeTropes = tropeHits h,
                              details_sentiment =
                                (case sentiment' of
                                   Some s \<Rightarrow> Some \<lparr> details_label = sentiment_label s,
                                                     details_scores = scores s \<rparr>
                                 | None \<Rightarrow> None) \<rparr> \<rparr>)))"

section \<open>Corroboration client: \<open>newsApi.js\<close>\<close>

definition STOP_WORDS :: "jsstring list" where
  "STOP_WORDS =
     map js [''the'', ''a'', ''an'', ''is'', ''are'', ''was'', ''were'', ''be'', ''been'', ''being'', ''have'', ''has'', ''had'',
      ''do'', ''does'', ''did'', ''will'', ''would'', ''could'', ''should'', ''may'', ''might'', ''can'', ''shall'',
      ''not'', ''no'', ''nor'', ''so'', ''yet'', ''both'', ''either'', ''for'', ''and'', ''but'', ''or'', ''of'', ''to'',
      ''in'', ''on'', ''at'', ''by'', ''with'', ''from'', ''into'', ''through'', ''about'', ''against'', ''between'',
      ''that'', ''this'', ''these'', ''those'', ''it'', ''its'', ''their'', ''they'', ''we'', ''you'', ''he'', ''she'',
      ''said'', ''says'', ''according'', ''also'', ''just'', ''more'', ''than'', ''then'', ''when'', ''who'', ''which'']"

text \<open>
  \<open>freq[w] = (freq[w] || 0) + 1\<close> on the plain object \<open>freq\<close>. The words are made of
  ASCII letters in lower case, and the one such name that a plain object inherits is
  \<open>constructor\<close>: reading it gives a function, and a function plus 1 is a string, as is
  that string plus 1. Such a value is kept as \<open>NotANumber\<close>, which is what the
  comparison of the sort makes of it.
\<close>

definition countWord :: "(jsstring \<times> tally) list \<Rightarrow> jsstring \<Rightarrow> (jsstring \<times> tally) list" where
  "countWord freq w =
     setProp w (case map_of freq w of
                  Some (Tally n) \<Rightarrow> Tally (n + 1)
                | Some NotANumber \<Rightarrow> NotANumber
                | None \<Rightarrow> if w = js ''constructor'' then NotANumber else Tally 1) freq"

text \<open>
  \<open>entries.sort((a, b) => b[1] - a[1])\<close>. The difference is \<open>NaN\<close>, which the sort
  reads as 0, as soon as one of the two values is not a number. The sort is stable, so
  with numbers only, and when all comparisons give 0, the result is determined; any
  other table makes the comparison inconsistent and the order is the runtime's.
\<close>

definition tallies :: "(jsstring \<times> tally) list \<Rightarrow> nat list" where
  "tallies entries = concat (map (\<lambda>e. case snd e of Tally n \<Rightarrow> [n] | NotANumber \<Rightarrow> []) entries)"

definition sortByCount :: "runtime \<Rightarrow> (jsstring \<times> tally) list \<Rightarrow> (jsstring \<times> tally) list" where
  "sortByCount rt entries =
     (if list_all (\<lambda>e. snd e \<noteq> NotANumber) entries
      then sort_key (\<lambda>e. case snd e of Tally n \<Rightarrow> - int n | NotANumber \<Rightarrow> 0) entries
      else if length (remdups (tallies entries)) \<le> 1 then entries
      else sortInconsistent rt entries)"

definition extractKeywords :: "runtime \<Rightarrow> jsstring \<Rightarrow> nat \<Rightarrow> jsstring" where
  "extractKeywords rt text maxWords =
     (let words = take 40
            (filter (\<lambda>w. 4 < length w \<and> toLowerCase rt w \<notin> set STOP_WORDS)
               (split_on isSpace
                  (map (\<lambda>ch. if isLetter ch \<or> isSpace ch then ch else ascii (CHR '' '')) text)));
          freq = foldl countWord [] (map (toLowerCase rt) words)
      in join (js '' '') (map fst (take maxWords (sortByCount rt freq))))"

definition textSimilarity :: "runtime \<Rightarrow> jsstring \<Rightarrow> jsstring \<Rightarrow> real" where
  "textSimilarity rt a b =
     (let wordsA = newSet (filter (\<lambda>w. 3 < length w) (split_on isSpace (toLowerCase rt a)));
          wordsB = newSet (filter (\<lambda>w. 3 < length w) (split_on isSpace (toLowerCase rt b)));
          intersection = length (filter (\<lambda>w. w \<in> set wordsB) wordsA);
          union = length (newSet (wordsA @ wordsB))
      in if 0 < union then real intersection / real union else 0)"

record article =
  article_title :: "jsstring option"
  article_description :: "jsstring option"
  article_source_name :: "jsstring option"
  article_url :: "jsstring option"

record news_data =
  articles :: "article list option"

record source_entry =
  entry_title :: "jsstring option"
  entry_source :: "jsstring option"
  entry_url :: "jsstring option"
  similarity :: int

record corroboration_result =
  found :: nat
  sources :: "source_entry list"
  uniqueSourceCount :: nat
  independentPhrasing :: bool
  query :: "jsstring option"
  corroboration_summary :: jsstring

text \<open>\<open>x || ''\<close> for an optional string.\<close>

definition orEmpty :: "jsstring option \<Rightarrow> jsstring" where
  "orEmpty x = (case x of None \<Rightarrow> [] | Some s \<Rightarrow> s)"

text \<open>
  The body of \<open>for (const article of articles.slice(0, 8))\<close>; the state is \<open>sources\<close>,
  \<open>sourceDomains\<close> and \<open>highSimilarityCount\<close>.
\<close>

definition corroborationStep ::
  "runtime \<Rightarrow> jsstring \<Rightarrow> source_entry list \<times> jsstring list \<times> nat \<Rightarrow> article
     \<Rightarrow> source_entry list \<times> jsstring list \<times> nat" where
  "corroborationStep rt bodyText st a =
     (case st of (sources', sourceDomains, highSimilarityCount) \<Rightarrow>
        (let articleText = orEmpty (article_title a) @ js '' '' @ orEmpty (article_description a);
             sim = textSimilarity rt bodyText articleText
         in (sources' @ [\<lparr> entry_title = article_title a, entry_source = article_source_name a,
                            entry_url = article_url a, similarity = Math_round (sim * 100) \<rparr>],
             (if truthy (orEmpty (article_source_name a))
              then setAdd (orEmpty (article_source_name a)) sourceDomains else sourceDomains),
             (if 0.35 < sim then highSimilarityCount + 1 else highSimilarityCount))))"

text \<open>The \<open>try\<close> block of \<open>checkCorroboration\<close>; \<open>news q\<close> is the outcome of the request for \<open>q\<close>.\<close>

definition checkCorroboration_try ::
  "runtime \<Rightarrow> (jsstring \<Rightarrow> news_data fetch_outcome) \<Rightarrow> content \<Rightarrow> jsstring
     \<Rightarrow> js_error + corroboration_result option" where
  "checkCorroboration_try rt news c query' =
     (case news query' of
        Rejected e \<Rightarrow> Inl e
      | Response status b \<Rightarrow>
          if \<not> res_ok status then Inr None
          else (case b of
                  Unparseable \<Rightarrow> Inl SyntaxError
                | Parsed None \<Rightarrow> Inl TypeError
                | Parsed (Some data) \<Rightarrow>
                   (let articles' = (case articles data of None \<Rightarrow> [] | Some as \<Rightarrow> as) in
                    if length articles' = 0 then
                      Inr (Some \<lparr> found = 0, sources = [], uniqueSourceCount = 0,
                                   independentPhrasing = False, query = None,
                                   corroboration_summary = js ''No related articles found in recent news.'' \<rparr>)
                    else
                     (case foldl (corroborationStep rt (take 800 (body c))) ([], [], 0) (take 8 articles') of
                        (sources', sourceDomains, highSimilarityCount) \<Rightarrow>
                         (let uniqueSourceCount' = length sourceDomains;
                              independentPhrasing' = (3 \<le> uniqueSourceCount' \<and> highSimilarityCount < 3)
                          in Inr (Some
                               \<lparr> found = length articles',
                                  sources = take 5 sources',
                                  uniqueSourceCount = uniqueSourceCount',
                                  independentPhrasing = independentPhrasing',
                                  query = Some query',
                                  corroboration_summary =
                                    (if independentPhrasing' then
                                       natToString uniqueSourceCount'
                                         @ js '' independent sources report on this topic with different phrasing ''
                                         @ emdash @ js '' a positive corroboration signal.''
                                     else if 0 < uniqueSourceCount' then
                                       js ''Found '' @ natToString uniqueSourceCount' @ js '' source''
                                         @ (if uniqueSourceCount' \<noteq> 1 then js ''s'' else [])
                                         @ js '' covering similar claims, but phrasing overlap is high ''
                                         @ emdash @ js '' possible copy-paste republishing.''
                                     else js ''No independent corroboration found in recent news.'') \<rparr>))))))"

definition checkCorroboration ::
  "runtime \<Rightarrow> jsstring \<Rightarrow> (jsstring \<Rightarrow> news_data fetch_outcome) \<Rightarrow> content
     \<Rightarrow> corroboration_result option" where
  "checkCorroboration rt NEWS_API_KEY news c =
     (if \<not> truthy NEWS_API_KEY then None
      else
       (let query' = extractKeywords rt (body c) 8 in
        if \<not> truthy query' \<or> length query' < 10 then None
        else (case checkCorroboration_try rt news c query' of
                Inl err \<Rightarrow> None
              | Inr r \<Rightarrow> r)))"

section \<open>Temporal analyzer: \<open>temporal.js\<close>\<close>

definition URGENCY_PHRASES :: "jsstring list" where
  "URGENCY_PHRASES =
     map js [''breaking:'', ''breaking news'', ''just in:'', ''just now'', ''developing story'',
      ''developing:'', ''this just happened'', ''happening now'', ''right now'',
      ''urgent:'', ''urgent update'', ''live update'', ''live:'', ''act now'', ''act fast'',
      ''before it's too late'', ''limited time'', ''share before'', ''going viral'',
      ''share this'', ''spread the word'', ''must read'', ''you need to see this'',
      ''you won't believe'']"

definition CORROBORATION_SIGNALS :: "regex list" where
  "CORROBORATION_SIGNALS =
     [seqs [liti (js ''according to ''), alts (map liti (map js [''multiple'', ''several'', ''various''])), liti (js '' ''),
            alts (map liti (map js [''sources'', ''reports'', ''outlets'']))],
      seqs [alts (map liti (map js [''reuters'', ''associated press'', ''ap news'', ''afp'', ''bbc'', ''npr'', ''pbs''])),
            spaces, alts [Seq (liti (js ''report'')) (opt (liti (js ''s''))), liti (js ''confirmed'')]],
      seqs [liti (js ''independently ''), alts (map liti (map js [''verified'', ''confirmed'', ''reported'']))],
      alts [seqs [liti (js ''peer''), Sym (\<lambda>c. c = ascii (CHR ''-'') \<or> c = ascii (CHR '' '')), liti (js ''reviewed'')],
            liti (js ''published in''), liti (js ''journal of'')],
      alts (map liti (map js [''official statement'', ''press release'', ''public record''])),
      alts (map liti (map js [''data from'', ''statistics from'', ''figures from''])),
      seqs [lit (js ''http''), opt (lit (js ''s'')), lit (js ''://''), plus (Sym (\<lambda>c. \<not> isSpace c))]]"

text \<open>The four tests of \<open>hasDateInText\<close>.\<close>

definition monthDayRegex :: regex where
  "monthDayRegex =
     seqs [WordB,
           alts (map liti (map js [''January'', ''February'', ''March'', ''April'', ''May'', ''June'', ''July'',
                           ''August'', ''September'', ''October'', ''November'', ''December''])),
           spaces, Rep 1 (Some 2) (Sym isDigit)]"

definition slashDateRegex :: regex where
  "slashDateRegex =
     seqs [WordB, Rep 1 (Some 2) (Sym isDigit), lit (js ''/''), Rep 1 (Some 2) (Sym isDigit), lit (js ''/''),
           Rep 2 (Some 4) (Sym isDigit), WordB]"

definition isoDateRegex :: regex where
  "isoDateRegex =
     seqs [WordB, Rep 4 (Some 4) (Sym isDigit), lit (js ''-''), Rep 2 (Some 2) (Sym isDigit), lit (js ''-''),
           Rep 2 (Some 2) (Sym isDigit), WordB]"

definition relativeDateRegex :: regex where
  "relativeDateRegex =
     seqs [WordB,
           alts (map liti (map js [''yesterday'', ''today'', ''last week'', ''last month'', ''this morning'',
                           ''this afternoon''])),
           WordB]"

record temporal_result = signal_result +
  corroboration :: "corroboration_result option option"

text \<open>The three branches that build \<open>explanation\<close>.\<close>

definition temporalExplanation :: "level \<Rightarrow> jsstring list \<Rightarrow> jsstring \<Rightarrow> jsstring" where
  "temporalExplanation level' details' corroborationNote =
     (if level' = Low then
        js ''Content has temporal context and corroboration signals. '' @ corroborationNote
      else if level' = Medium then
        join (js ''. '') (take 2 details') @ js ''. '' @ corroborationNote
      else
        js ''Elevated temporal risk: '' @ join (js ''. '') (take 3 details') @ js ''. ''
          @ corroborationNote)"

definition analyzeTemporal ::
  "runtime \<Rightarrow> jsstring \<Rightarrow> (jsstring \<Rightarrow> news_data fetch_outcome) \<Rightarrow> content \<Rightarrow> temporal_result" where
  "analyzeTemporal rt NEWS_API_KEY news c =
     (let text = body c;
          lower = toLowerCase rt text;
          sentences' = sentencesOf 5 text
      in if length sentences' < 2 then
           \<lparr> level = Medium, score = 50,
              explanation = js ''Text is too short to assess temporal and contextual patterns.'',
              corroboration = None \<rparr>
         else
          (let urgencyHits = length (filter (includes_str lower) URGENCY_PHRASES);
               risk1 = (if 3 \<le> urgencyHits then 3 else if 1 \<le> urgencyHits then 1 else (0::int));
               details1 = (if 3 \<le> urgencyHits
                           then [js ''Heavy urgency language ('' @ natToString urgencyHits @ js '' phrases)'']
                           else if 1 \<le> urgencyHits then [js ''Some urgency language''] else []);
               hasDateMeta = truthy (date c);
               hasDateInText = (test monthDayRegex text \<or> test slashDateRegex text
                                 \<or> test isoDateRegex text \<or> test relativeDateRegex text);
               risk2 = (if \<not> hasDateMeta \<and> \<not> hasDateInText then risk1 + 1 else risk1);
               details2 = (if \<not> hasDateMeta \<and> \<not> hasDateInText
                           then details1 @ [js ''No dates or timestamps found''] else details1);
               internalCorroboration =
                 foldl (\<lambda>n p. n + length (matchAll p text)) 0 CORROBORATION_SIGNALS;
               risk3 = (if internalCorroboration = 0 then risk2 + 2
                        else if 3 \<le> internalCorroboration then risk2 - 1 else risk2);
               details3 = (if internalCorroboration = 0
                           then details2 @ [js ''No corroboration signals in text''] else details2);
               sharePressure = (includes_str lower (js ''before it gets deleted'')
                                 \<or> includes_str lower (js ''before they take it down'')
                                 \<or> includes_str lower (js ''screenshot this'')
                                 \<or> includes_str lower (js ''save this post''));
               risk4 = (if sharePressure then risk3 + 2 else risk3);
               details4 = (if sharePressure
                           then details3 @ [js ''Pressure to share/save content urgently''] else details3);
               corroboration' = checkCorroboration rt NEWS_API_KEY news c;
               risk5 = (case corroboration' of
                          None \<Rightarrow> risk4
                        | Some r \<Rightarrow> if found r = 0 then risk4 + 2
                                    else if independentPhrasing r then risk4 - 2
                                    else risk4 + 1);
               details5 = (case corroboration' of
                             None \<Rightarrow> details4
                           | Some r \<Rightarrow> if found r = 0
                                       then details4 @ [js ''No matching articles found in recent news'']
                                       else details4);
               corroborationNote = (case corroboration' of
                  None \<Rightarrow> js ''External corroboration check unavailable (no NewsAPI key configured).''
                | Some r \<Rightarrow> corroboration_summary r);
               risk = max 0 risk5;
               score' = max 5 (min 95 (Math_round (real_of_int risk / 10 * 100)));
               level' = (if 55 \<le> score' then High else if 25 \<le> score' then Medium else Low);
               explanation' = temporalExplanation level' details5 corroborationNote
           in \<lparr> level = level', score = score', explanation = explanation',
                 corroboration = Some corroboration' \<rparr>))"

section \<open>Structural analyzer: \<open>structural.js\<close>\<close>

definition apostrophe :: jsstring where
  "apostrophe = [ascii (CHR 0x27)]"

text \<open>\<open>things?\<close> and its like: a word with an optional final \<open>s\<close>.\<close>

definition plural :: "jsstring \<Rightarrow> regex" where
  "plural w = Seq (liti w) (opt (liti (js ''s'')))"

text \<open>
  The ten \<open>RegExp\<close> objects of the module, as their literals make them: each has the
  flag \<open>i\<close> and none has the flag \<open>g\<close>. The objects live as long as the module, so
  what a run leaves in them is what the next run finds.
\<close>

definition CLICKBAIT_PATTERNS :: "regexp list" where
  "CLICKBAIT_PATTERNS = map (\<lambda>r. regexLiteral r False)
     [seqs [liti (js ''you won''), opt (liti apostrophe), liti (js ''t believe'')],
      liti (js ''what happens next''),
      seqs [liti (js ''this ''), alts (map liti (map js [''one'', ''simple''])), liti (js '' trick'')],
      liti (js ''doctors hate''),
      seqs [plus (Sym isDigit), liti (js '' ''),
            alts (map plural (map js [''thing'', ''reason'', ''way'', ''fact'', ''secret''])), liti (js '' ''),
            alts (map liti (map js [''you'', ''that'', ''about'']))],
      seqs [liti (js ''the ''), alts (map liti (map js [''real'', ''shocking'', ''surprising'', ''disturbing''])),
            liti (js '' ''), alts (map liti (map js [''truth'', ''reason'', ''story'']))],
      seqs [alts (map liti (map js [''is'', ''are''])), liti (js '' ''),
            alts (map liti (map js [''actually'', ''secretly'', ''really'']))],
      seqs [liti (js ''here''), opt (liti apostrophe), opt (liti (js ''s'')), liti (js '' ''),
            alts (map liti (map js [''what'', ''why'', ''how'']))],
      seqs [liti (js ''everything ''), alts (map liti (map js [''you need'', ''we know'']))],
      seqs [liti (js ''this ''), alts (map liti (map js [''changes'', ''explains''])), liti (js '' everything'')]]"

definition SENSATIONAL_WORDS :: "jsstring list" where
  "SENSATIONAL_WORDS =
     map js [''shocking'', ''bombshell'', ''explosive'', ''devastating'', ''unbelievable'',
      ''insane'', ''mind-blowing'', ''jaw-dropping'', ''epic'', ''ultimate'',
      ''incredible'', ''extraordinary'', ''unprecedented'', ''massive'', ''huge'',
      ''stunned'', ''slammed'', ''destroyed'', ''obliterated'', ''annihilated'',
      ''blasted'', ''rocked'', ''ripped'', ''torched'', ''eviscerated'']"

definition TITLE_STOP_WORDS :: "jsstring list" where
  "TITLE_STOP_WORDS = map js [''this'', ''that'', ''with'', ''from'', ''have'', ''been'', ''they'', ''their'',
                       ''about'', ''what'', ''when'', ''where'', ''which'']"

text \<open>The three branches that build \<open>explanation\<close>.\<close>

definition structuralExplanation :: "level \<Rightarrow> jsstring list \<Rightarrow> jsstring" where
  "structuralExplanation level' details' =
     (if level' = Low then
        js ''Content structure appears standard. Headline aligns with body content, and no significant sensational framing detected.''
      else if level' = Medium then join (js ''. '') (take 2 details') @ js ''.''
      else js ''Structural concerns: '' @ join (js ''. '') (take 3 details') @ js ''.'')"

text \<open>
  The body of \<open>for (const pattern of CLICKBAIT_PATTERNS)\<close>. The state is
  \<open>clickbaitHits\<close> and the objects visited so far, as the tests have left them; the
  second test is made only when the first fails.
\<close>

definition clickbaitStep ::
  "jsstring \<Rightarrow> jsstring \<Rightarrow> nat \<times> regexp list \<Rightarrow> regexp \<Rightarrow> nat \<times> regexp list" where
  "clickbaitStep titleLower lede st p =
     (case st of (clickbaitHits, visited) \<Rightarrow>
        (case RegExp_test p titleLower of
           (True, p') \<Rightarrow> (clickbaitHits + 1, visited @ [p'])
         | (False, p') \<Rightarrow>
             (case RegExp_test p' lede of
                (True, p'') \<Rightarrow> (clickbaitHits + 1, visited @ [p''])
              | (False, p'') \<Rightarrow> (clickbaitHits, visited @ [p'']))))"

text \<open>
  The analyzer takes the pattern objects of the module as it finds them and returns them
  as it leaves them, next to its result.
\<close>

definition analyzeStructural ::
  "runtime \<Rightarrow> regexp list \<Rightarrow> content \<Rightarrow> signal_result \<times> regexp list" where
  "analyzeStructural rt patterns c =
     (let text = body c;
          title' = title c;
          lower = toLowerCase rt text;
          wordCount = length (split_on isSpace text)
      in if wordCount < 10 then
           (\<lparr> level = Medium, score = 50,
               explanation = js ''Text is too short to assess structural integrity.'' \<rparr>,
            patterns)
         else
          (let titleWords = filter (\<lambda>w. 3 < length w \<and> w \<notin> set TITLE_STOP_WORDS)
                              (split_on isSpace
                                 (filter (\<lambda>ch. isLower ch \<or> isSpace ch) (toLowerCase rt title')));
               overlap = length (filter (includes_str lower) titleWords);
               alignment = (if 0 < length titleWords
                            then real overlap / real (length titleWords) else 1);
               checked = (truthy title' \<and> 5 < length title');
               risk1 = (if checked \<and> alignment < 0.3 then 2
                        else if checked \<and> alignment < 0.5 then 1 else (0::int));
               details1 =
                 (if checked \<and> alignment < 0.3
                  then [js ''Headline has weak alignment with the body content '' @ emdash
                          @ js '' may be misleading or clickbait'']
                  else if checked \<and> alignment < 0.5
                  then [js ''Moderate headline-body alignment gap''] else []);
               titleLower = toLowerCase rt title';
               loop = foldl (clickbaitStep titleLower (take 200 lower)) (0, []) patterns;
               clickbaitHits = fst loop;
               patterns' = snd loop;
               risk2 = risk1 + (if 2 \<le> clickbaitHits then 3 else if clickbaitHits = 1 then 1 else 0);
               details2 = details1
                  @ (if 2 \<le> clickbaitHits then [js ''Multiple clickbait framing patterns detected'']
                     else if clickbaitHits = 1 then [js ''Clickbait-style framing detected''] else []);
               sensationalInTitle = length (filter (includes_str titleLower) SENSATIONAL_WORDS);
               risk3 = risk2 + (if 2 \<le> sensationalInTitle then 2
                                else if sensationalInTitle = 1 then 1 else 0);
               details3 = details2
                  @ (if 2 \<le> sensationalInTitle
                     then [js ''Headline uses highly sensational language''] else []);
               question = (truthy title' \<and> endsWith (trim title') (js ''?''));
               risk4 = risk3 + (if question then 1 else 0);
               details4 = details3
                  @ (if question
                     then [js ''Question headline '' @ emdash
                             @ js '' often used to imply claims without making them directly'']
                     else []);
               truncationSignals = length (filter (\<lambda>b. b)
                  [endsWith text (js ''...''),
                   endsWith text ellipsis,
                   endsWith text (js ''Read more''),
                   endsWith text (js ''Continue reading''),
                   test (lit (js ''[...]'')) text,
                   wordCount < 50 \<and> \<not> includes_str (source c) (js ''twitter'')
                     \<and> \<not> includes_str (source c) (js ''x.com'')]);
               risk5 = risk4 + (if 2 \<le> truncationSignals then 2
                                else if truncationSignals = 1 then 1 else 0);
               details5 = details4
                  @ (if 2 \<le> truncationSignals
                     then [js ''Content appears truncated or incomplete '' @ emdash
                             @ js '' may be missing important context'']
                     else []);
               allCaps = (truthy title' \<and> title' = toUpperCase rt title' \<and> 10 < length title');
               risk = risk5 + (if allCaps then 1 else 0);
               details6 = details5
                  @ (if allCaps
                     then [js ''Title is in ALL CAPS '' @ emdash
                             @ js '' common in sensational or low-credibility framing'']
                     else []);
               score' = max 5 (min 95 (Math_round (real_of_int risk / 10 * 100)));
               level' = (if 55 \<le> score' then High else if 25 \<le> score' then Medium else Low);
               explanation' = structuralExplanation level' details6
           in (\<lparr> level = level', score = score', explanation = explanation' \<rparr>, patterns')))"

section \<open>Aggregation layer: \<open>aggregate\<close>\<close>

record signals =
  syntheticText :: signal_result
  sourcing :: signal_result
  linguistic :: signal_result
  temporal :: signal_result
  structural :: signal_result

record aggregation =
  confidenceBand :: level
  summary :: jsstring
  uncertaintyStatement :: jsstring
  suggestions :: "jsstring list"
  disagreements :: "jsstring list"

definition allSignals :: "signals \<Rightarrow> signal_result list" where
  "allSignals sg = [syntheticText sg, sourcing sg, linguistic sg, temporal sg, structural sg]"

definition signalNames :: "jsstring list" where
  "signalNames = map js [''Synthetic Text'', ''Sourcing'', ''Linguistic Risk'', ''Temporal'', ''Structural'']"

text \<open>The section \<open>Confidence Band\<close> of \<open>aggregate\<close>.\<close>

definition aggregate_band :: "signals \<Rightarrow> level" where
  "aggregate_band sg =
     (let scores = map score (allSignals sg);
          levels = map level (allSignals sg);
          highCount = length (filter (\<lambda>l. l = High) levels);
          mediumCount = length (filter (\<lambda>l. l = Medium) levels);
          avgScore = real_of_int (foldl (+) 0 scores) / real (length scores)
      in if 3 \<le> highCount \<or> 65 \<le> avgScore then High
         else if 1 \<le> highCount \<or> 3 \<le> mediumCount \<or> 35 \<le> avgScore then Medium
         else Low)"

text \<open>The section \<open>Disagreements\<close>.\<close>

definition aggregate_disagreements :: "signals \<Rightarrow> jsstring list" where
  "aggregate_disagreements sg =
     (let levels = map level (allSignals sg) in
      if High \<in> set levels \<and> Low \<in> set levels then
        (let highSignals = map snd (filter (\<lambda>(l, n). l = High) (zip levels signalNames));
             lowSignals = map snd (filter (\<lambda>(l, n). l = Low) (zip levels signalNames))
         in if 0 < length highSignals \<and> 0 < length lowSignals then
              [join (js '' and '') highSignals @ js '' signal''
                 @ (if 1 < length highSignals then js ''s'' else [])
                 @ js '' high risk, while '' @ join (js '' and '') lowSignals @ js '' appear''
                 @ (if length lowSignals = 1 then js ''s'' else [])
                 @ js '' normal. This mixed picture means some aspects warrant scrutiny even though others look fine.'']
            else [])
      else [])"

text \<open>The section \<open>Summary\<close>.\<close>

definition aggregate_summary :: "signals \<Rightarrow> level \<Rightarrow> jsstring" where
  "aggregate_summary sg band =
     (if band = Low then
        js ''This content's signal profile appears mostly normal across the dimensions we analyze. Sourcing, language patterns, structural framing, and other indicators don't raise significant flags. This doesn't mean the content is true ''
          @ emdash @ js '' only that its surface characteristics are consistent with standard reporting or communication.''
      else if band = Medium then
        (let concerns =
               (if level (syntheticText sg) \<noteq> Low then [js ''some patterns resembling generated text''] else [])
             @ (if level (sourcing sg) \<noteq> Low then [js ''limited source attribution''] else [])
             @ (if level (linguistic sg) \<noteq> Low then [js ''elevated emotional or certainty language''] else [])
             @ (if level (temporal sg) \<noteq> Low then [js ''weak temporal context or corroboration''] else [])
             @ (if level (structural sg) \<noteq> Low then [js ''structural framing concerns''] else [])
         in js ''This content shows some signals that suggest caution: '' @ join (js '', '') concerns
              @ js ''. These patterns don't prove anything is wrong, but they appear in content that sometimes turns out to be misleading, incomplete, or decontextualized. Additional verification would be worthwhile before acting on or sharing this content.'')
      else
        (let topConcerns = take 2 (map explanation (filter (\<lambda>s. level s = High) (allSignals sg)))
         in js ''Multiple credibility signals flag this content for careful evaluation. ''
              @ join (js '' '') topConcerns
              @ js '' These patterns frequently appear in content that is misleading, manipulative, or synthetic. This does not mean the claims are false ''
              @ emdash @ js '' but the way they are presented warrants significant caution.''))"

definition uncertaintyText :: jsstring where
  "uncertaintyText = js ''This analysis examines content characteristics and surface-level patterns only. It cannot determine whether claims are true or false, nor can it assess the intent of the author. Signals are probabilistic estimates based on textual heuristics. Content that appears normal by these measures could still be misleading, and content that triggers warnings could be entirely accurate. Always apply your own judgment.''"

text \<open>The section \<open>Suggestions\<close>.\<close>

definition aggregate_suggestions :: "signals \<Rightarrow> content \<Rightarrow> jsstring list" where
  "aggregate_suggestions sg c =
     (let suggestions =
            (if level (sourcing sg) \<noteq> Low
             then [js ''Look for the same story reported by multiple independent news organizations with their own sourcing''] else [])
          @ (if level (syntheticText sg) \<noteq> Low
             then [js ''Check whether a named human author is associated with this content and has a verifiable track record''] else [])
          @ (if level (linguistic sg) \<noteq> Low
             then [js ''Compare this content to coverage of the same topic that uses more measured language''] else [])
          @ (if level (temporal sg) \<noteq> Low
             then [js ''Wait for the story to develop '' @ emdash @ js '' initial reports are often incomplete or inaccurate''] else [])
          @ (if level (structural sg) \<noteq> Low
             then [js ''Read beyond the headline '' @ emdash @ js '' check if the body actually supports the framing''] else [])
          @ (if \<not> truthy (source c) \<or> source c = js ''manual-paste''
             then [js ''Try to identify the original source of this content for better context''] else [])
      in if length suggestions = 0
         then map js [''Cross-reference claims with other reputable sources before sharing'',
               ''Consider the broader context and whether this content is complete'']
         else suggestions)"

definition aggregate :: "signals \<Rightarrow> content \<Rightarrow> aggregation" where
  "aggregate sg c =
     \<lparr> confidenceBand = aggregate_band sg,
       summary = aggregate_summary sg (aggregate_band sg),
       uncertaintyStatement = uncertaintyText,
       suggestions = aggregate_suggestions sg c,
       disagreements = aggregate_disagreements sg \<rparr>"

section \<open>The claims, stated from the specification\<close>

text \<open>The number of the five signals at level \<open>l\<close>, and the mean of the five scores.\<close>

definition countLevel :: "level \<Rightarrow> signals \<Rightarrow> nat" where
  "countLevel l sg = (\<Sum>s\<leftarrow>allSignals sg. if level s = l then 1 else 0)"

definition meanScore :: "signals \<Rightarrow> real" where
  "meanScore sg =
     real_of_int (score (syntheticText sg) + score (sourcing sg) + score (linguistic sg)
                   + score (temporal sg) + score (structural sg)) / 5"

text \<open>The confidence band as the specification words it.\<close>

definition spec_confidenceBand :: "signals \<Rightarrow> level" where
  "spec_confidenceBand sg =
     (if 3 \<le> countLevel High sg \<or> 65 \<le> meanScore sg then High
      else if 1 \<le> countLevel High sg \<or> 3 \<le> countLevel Medium sg \<or> 35 \<le> meanScore sg then Medium
      else Low)"

text \<open>The sourcing score and level as the specification words them.\<close>

definition spec_clamp :: "int \<Rightarrow> int \<Rightarrow> int \<Rightarrow> int" where
  "spec_clamp x lo hi = max lo (min hi x)"

definition spec_sourcingScore :: "nat \<Rightarrow> nat \<Rightarrow> nat \<Rightarrow> nat \<Rightarrow> bool \<Rightarrow> int" where
  "spec_sourcingScore named anonymous unattributed links authorPresent =
     spec_clamp (50 - min (int named * 8) 30 + min (int anonymous * 5) 15
                   + min (int unattributed * 3) 20 - min (int links * 3) 10
                   - (if authorPresent then 5 else 0)) 5 95"


text \<open>
  The corroboration rule as the specification words it: the number of distinct source
  names among the articles (an absent or empty name is no name), and the number of
  articles whose similarity to the body exceeds 0.35. The similarity is the Jaccard
  index of the two sets of words of more than 3 units, in lower case; the text of an
  article is its title and its description.
\<close>

definition spec_distinctSourceNames :: "article list \<Rightarrow> nat" where
  "spec_distinctSourceNames as =
     card (set (filter truthy (map (\<lambda>a. orEmpty (article_source_name a)) as)))"

definition spec_words :: "runtime \<Rightarrow> jsstring \<Rightarrow> jsstring set" where
  "spec_words rt text = set (filter (\<lambda>w. 3 < length w) (split_on isSpace (toLowerCase rt text)))"

definition spec_jaccard :: "jsstring set \<Rightarrow> jsstring set \<Rightarrow> real" where
  "spec_jaccard A B = (if A \<union> B = {} then 0 else real (card (A \<inter> B)) / real (card (A \<union> B)))"

definition spec_articleSimilarity :: "runtime \<Rightarrow> jsstring \<Rightarrow> article \<Rightarrow> real" where
  "spec_articleSimilarity rt bodyText a =
     spec_jaccard (spec_words rt bodyText)
       (spec_words rt (orEmpty (article_title a) @ js '' '' @ orEmpty (article_description a)))"

definition spec_highSimilarityCount :: "runtime \<Rightarrow> jsstring \<Rightarrow> article list \<Rightarrow> nat" where
  "spec_highSimilarityCount rt bodyText as =
     length (filter (\<lambda>a. 0.35 < spec_articleSimilarity rt bodyText a) as)"

text \<open>
  What an analyzer can observe of the remote model in one run: the value its one call
  \<open>hfInference(model, truncated)\<close> settles with.
\<close>

definition modelResponse :: "'j inference \<Rightarrow> jsstring \<Rightarrow> js_error + 'j option" where
  "modelResponse hf text = fst (hfInference (hf (truncated text)) 0 False)"

section \<open>Example inputs\<close>

text \<open>
  A runtime for the examples, whose texts are ASCII; and the same runtime at another
  time, with other random numbers.
\<close>

definition some_runtime :: runtime where
  "some_runtime =
     \<lparr> unicodeLower = map lowerUnit, unicodeUpper = map upperUnit,
        sortInconsistent = (\<lambda>entries. entries), dateNow = 0, mathRandom = (\<lambda>k. 0) \<rparr>"

definition later_runtime :: runtime where
  "later_runtime = some_runtime\<lparr>dateNow := 86400000, mathRandom := (\<lambda>k. 1 / 2)\<rparr>"

text \<open>A model endpoint that cannot be reached, and one that answers every request alike.\<close>

definition hf_unavailable :: "'j inference" where
  "hf_unavailable = (\<lambda>inputs k. Rejected NetworkError)"

definition hf_responds :: "'j \<Rightarrow> 'j inference" where
  "hf_responds j = (\<lambda>inputs k. Response 200 (Parsed (Some j)))"

text \<open>An endpoint that is still loading at the first request and answers the second.\<close>

definition retried_then :: "'j \<Rightarrow> 'j inference" where
  "retried_then j =
     (\<lambda>inputs k. if k = 0 then Response 503 Unparseable else Response 200 (Parsed (Some j)))"

text \<open>A search service that answers one query only.\<close>

definition news_only_for :: "jsstring \<Rightarrow> article list \<Rightarrow> jsstring \<Rightarrow> news_data fetch_outcome" where
  "news_only_for q as =
     (\<lambda>q'. if q' = q then Response 200 (Parsed (Some \<lparr> articles = Some as \<rparr>))
           else Rejected NetworkError)"

definition news_responds :: "article list \<Rightarrow> jsstring \<Rightarrow> news_data fetch_outcome" where
  "news_responds as = (\<lambda>q. Response 200 (Parsed (Some \<lparr> articles = Some as \<rparr>)))"

text \<open>The Content record the route builds for pasted text, and one with an author.\<close>

definition manual_paste :: "jsstring \<Rightarrow> content" where
  "manual_paste text =
     \<lparr> title = [], body = text, meta = [], author = [], date = [], source = js ''manual-paste'' \<rparr>"

definition signed_article :: "jsstring \<Rightarrow> jsstring \<Rightarrow> content" where
  "signed_article name text =
     \<lparr> title = [], body = text, meta = [], author = name, date = [], source = js ''example.org'' \<rparr>"

definition sixteen_words :: jsstring where
  "sixteen_words = js ''Alice met Acme staff. They talked at length. It was a good and long talk indeed.''"

definition nine_words :: jsstring where
  "nine_words = js ''Stocks fell today. Bonds rose sharply. Traders were calm.''"

definition three_short_sentences :: jsstring where
  "three_short_sentences = js ''I am here. You are there. We are done.''"

definition two_sentences :: jsstring where
  "two_sentences = js ''Alice met Acme staff. They talked at length.''"

definition senate_story :: jsstring where
  "senate_story = js ''Senators debated healthcare funding yesterday.''"



text \<open>A post under a clickbait title.\<close>

definition clickbait_post :: content where
  "clickbait_post =
     \<lparr> title = js ''You won't believe what happens next'', body = sixteen_words, meta = [],
        author = [], date = [], source = js ''example.org'' \<rparr>"

text \<open>
  Texts with units beyond ASCII: a no-break space (U+00A0) between two of fourteen words,
  and two short sentences with typographic apostrophes (U+2019).
\<close>

definition nbsp :: jsstring where
  "nbsp = [Unit16 (CHR 0x00) (CHR 0xA0)]"

definition rsquo :: jsstring where
  "rsquo = [Unit16 (CHR 0x20) (CHR 0x19)]"

definition fourteen_words_nbsp :: jsstring where
  "fourteen_words_nbsp =
     js ''Dr.'' @ nbsp @ js ''Smith said the deal would close by the end of next fiscal year''"

definition two_short_sentences :: jsstring where
  "two_short_sentences = js ''It'' @ rsquo @ js ''s over. It'' @ rsquo @ js ''s done.''"

definition unclamped_result :: synthetic_result where
  "unclamped_result =
     \<lparr> level = Low, score = 0,
        explanation = js ''Text patterns are consistent with human writing. Assessed using heuristic analysis (ML service unavailable).'',
        modelUsed = Some False, syntheticProbability = Some 0 \<rparr>"

definition detector_says_fake :: "hf_item hf_json" where
  "detector_says_fake = Array [ItemList [ClassEntry (js ''LABEL_0'') 0.1, ClassEntry (js ''LABEL_1'') 0.9]]"

definition numbered_sentiment :: "hf_item hf_json" where
  "numbered_sentiment =
     Array [ItemList [ClassEntry (js ''LABEL_0'') 0.1, ClassEntry (js ''LABEL_1'') 0.2, ClassEntry (js ''LABEL_2'') 0.7]]"

definition bare_numbered_sentiment :: "hf_item hf_json" where
  "bare_numbered_sentiment =
     Array [ItemList [ClassEntry (js ''0'') 0.1, ClassEntry (js ''1'') 0.2, ClassEntry (js ''2'') 0.7]]"

definition two_entities :: "hf_entity hf_json" where
  "two_entities = Array [HfEntity (js ''Alice'') (Some (js ''PER'')) None 0.99,
                         HfEntity (js ''Acme'') None (Some (js ''B-ORG'')) 0.9]"

definition headline_from :: "jsstring \<Rightarrow> jsstring \<Rightarrow> article" where
  "headline_from outlet headline =
     \<lparr> article_title = Some headline, article_description = None,
        article_source_name = Some outlet, article_url = None \<rparr>"

definition four_outlets :: "article list" where
  "four_outlets = [headline_from (js ''AP'') (js ''Markets rally''),
                   headline_from (js ''BBC'') (js ''Weather tomorrow''),
                   headline_from (js ''NPR'') (js ''Sports results''),
                   headline_from (js ''Reuters'') (js ''Budget talks'')]"

text \<open>Three outlets that republish the story word for word, and a fourth that does not.\<close>

definition three_copies :: "article list" where
  "three_copies = [headline_from (js ''AP'') senate_story,
                   headline_from (js ''BBC'') senate_story,
                   headline_from (js ''NPR'') senate_story,
                   headline_from (js ''Reuters'') (js ''Budget talks'')]"

text \<open>
  A full page of ten articles: seven unrelated headlines of four outlets, then three
  copies of the story in the places 8 to 10.
\<close>

definition ten_articles :: "article list" where
  "ten_articles = four_outlets
     @ [headline_from (js ''AP'') (js ''Election night''),
        headline_from (js ''BBC'') (js ''Harvest festival''),
        headline_from (js ''NPR'') (js ''Library hours'')]
     @ [headline_from (js ''Wire One'') senate_story,
        headline_from (js ''Wire Two'') senate_story,
        headline_from (js ''Wire Three'') senate_story]"

text \<open>
  A full page of ten articles without a copy: eight headlines of two outlets, then one
  each of two more outlets in the places 9 and 10.
\<close>

definition late_outlets :: "article list" where
  "late_outlets =
     [headline_from (js ''AP'') (js ''Markets rally''),
      headline_from (js ''BBC'') (js ''Weather tomorrow''),
      headline_from (js ''AP'') (js ''Sports results''),
      headline_from (js ''BBC'') (js ''Budget talks''),
      headline_from (js ''AP'') (js ''Election night''),
      headline_from (js ''BBC'') (js ''Harvest festival''),
      headline_from (js ''AP'') (js ''Library hours''),
      headline_from (js ''BBC'') (js ''Road works''),
      headline_from (js ''NPR'') (js ''School terms''),
      headline_from (js ''Reuters'') (js ''Ferry times'')]"

definition all_low :: signals where
  "all_low =
     \<lparr> syntheticText = \<lparr> level = Low, score = 29, explanation = [] \<rparr>,
        sourcing = \<lparr> level = Low, score = 34, explanation = [] \<rparr>,
        linguistic = \<lparr> level = Low, score = 24, explanation = [] \<rparr>,
        temporal = \<lparr> level = Low, score = 24, explanation = [] \<rparr>,
        structural = \<lparr> level = Low, score = 24, explanation = [] \<rparr> \<rparr>"

section \<open>Code equations\<close>

text \<open>
  The character classes are defined by the values of the bytes; for evaluation they are
  read off the bits of the low byte. The comparison with a square root is evaluated on
  squares.
\<close>

lemma isAscii_code [code]:
  "isAscii (Unit16 h (Char b0 b1 b2 b3 b4 b5 b6 b7)) = (h = CHR 0x00 \<and> \<not> b7)"
  by (cases b0; cases b1; cases b2; cases b3; cases b4; cases b5; cases b6; cases b7;
      simp add: code_def)

lemma isUpper_code [code]:
  "isUpper (Unit16 h (Char b0 b1 b2 b3 b4 b5 b6 b7)) =
     (h = CHR 0x00 \<and> \<not> b7 \<and> b6 \<and> \<not> b5 \<and> (b0 \<or> b1 \<or> b2 \<or> b3 \<or> b4)
        \<and> \<not> (b4 \<and> b3 \<and> (b2 \<or> (b1 \<and> b0))))"
  by (cases b0; cases b1; cases b2; cases b3; cases b4; cases b5; cases b6; cases b7;
      simp add: code_def)

lemma isLower_code [code]:
  "isLower (Unit16 h (Char b0 b1 b2 b3 b4 b5 b6 b7)) =
     (h = CHR 0x00 \<and> \<not> b7 \<and> b6 \<and> b5 \<and> (b0 \<or> b1 \<or> b2 \<or> b3 \<or> b4)
        \<and> \<not> (b4 \<and> b3 \<and> (b2 \<or> (b1 \<and> b0))))"
  by (cases b0; cases b1; cases b2; cases b3; cases b4; cases b5; cases b6; cases b7;
      simp add: code_def)

lemma isDigit_code [code]:
  "isDigit (Unit16 h (Char b0 b1 b2 b3 b4 b5 b6 b7)) =
     (h = CHR 0x00 \<and> \<not> b7 \<and> \<not> b6 \<and> b5 \<and> b4 \<and> \<not> (b3 \<and> (b2 \<or> b1)))"
  by (cases b0; cases b1; cases b2; cases b3; cases b4; cases b5; cases b6; cases b7;
      simp add: code_def)

lemma isSpace_code [code]:
  "isSpace (Unit16 h (Char b0 b1 b2 b3 b4 b5 b6 b7)) =
     (if h = CHR 0x00 then
        \<not> b6 \<and> ((b5 \<and> \<not> b4 \<and> \<not> b3 \<and> \<not> b2 \<and> \<not> b1 \<and> \<not> b0)
               \<or> (\<not> b7 \<and> \<not> b5 \<and> \<not> b4 \<and> b3 \<and> ((\<not> b2 \<and> (b1 \<or> b0)) \<or> (b2 \<and> \<not> b1))))
      else if h = CHR 0x16 then Char b0 b1 b2 b3 b4 b5 b6 b7 = CHR 0x80
      else if h = CHR 0x20 then
        \<not> b7 \<and> ((\<not> b6 \<and> \<not> b5 \<and> \<not> b4 \<and> \<not> (b3 \<and> (b2 \<or> (b1 \<and> b0))))
               \<or> Char b0 b1 b2 b3 b4 b5 b6 b7 \<in> set [CHR 0x28, CHR 0x29, CHR 0x2F, CHR 0x5F])
      else if h = CHR 0x30 then Char b0 b1 b2 b3 b4 b5 b6 b7 = CHR 0x00
      else if h = CHR 0xFE then Char b0 b1 b2 b3 b4 b5 b6 b7 = CHR 0xFF
      else False)"
  by (cases b0; cases b1; cases b2; cases b3; cases b4; cases b5; cases b6; cases b7;
      simp add: code_def)

lemma lowerUnit_code [code]:
  "lowerUnit (Unit16 h (Char b0 b1 b2 b3 b4 b5 b6 b7)) =
     (if isUpper (Unit16 h (Char b0 b1 b2 b3 b4 b5 b6 b7))
      then Unit16 h (Char b0 b1 b2 b3 b4 True b6 b7)
      else Unit16 h (Char b0 b1 b2 b3 b4 b5 b6 b7))"
  by (cases b0; cases b1; cases b2; cases b3; cases b4; cases b5; cases b6; cases b7;
      simp add: code_def char_of_eq_iff take_bit_eq_mod)

lemma upperUnit_code [code]:
  "upperUnit (Unit16 h (Char b0 b1 b2 b3 b4 b5 b6 b7)) =
     (if isLower (Unit16 h (Char b0 b1 b2 b3 b4 b5 b6 b7))
      then Unit16 h (Char b0 b1 b2 b3 b4 False b6 b7)
      else Unit16 h (Char b0 b1 b2 b3 b4 b5 b6 b7))"
  by (cases b0; cases b1; cases b2; cases b3; cases b4; cases b5; cases b6; cases b7;
      simp add: code_def char_of_eq_iff take_bit_eq_mod)

lemma sqrt_signed_square: "sqrt (y * \<bar>y\<bar>) = y"
proof (cases "0 \<le> y")
  case True
  then show ?thesis by (simp add: real_sqrt_mult)
next
  case False
  then have "y * \<bar>y\<bar> = - (y * y)" by simp
  then show ?thesis using False by (simp add: real_sqrt_minus)
qed

lemma sqrt_less_iff_signed: "(sqrt v < y) = (v < y * \<bar>y\<bar>)"
  using real_sqrt_less_iff[of v "y * \<bar>y\<bar>"] by (simp only: sqrt_signed_square)

lemma sqrt_greater_iff_signed: "(y < sqrt v) = (y * \<bar>y\<bar> < v)"
  using real_sqrt_less_iff[of "y * \<bar>y\<bar>" v] by (simp only: sqrt_signed_square)

lemma sqrtRatioLess_code [code]:
  "sqrtRatioLess v d t =
     (if 0 < d then v < (t * d) * \<bar>t * d\<bar>
      else if d < 0 then (t * d) * \<bar>t * d\<bar> < v
      else 0 < t)"
proof -
  consider "0 < d" | "d < 0" | "d = 0" by linarith
  then show ?thesis
  proof cases
    case 1
    then have "(sqrt v / d < t) = (sqrt v < t * d)" by (simp add: pos_divide_less_eq)
    then show ?thesis using 1 by (simp add: sqrtRatioLess_def sqrt_less_iff_signed)
  next
    case 2
    then have "(sqrt v / d < t) = (t * d < sqrt v)" by (simp add: neg_divide_less_eq)
    then show ?thesis using 2 by (simp add: sqrtRatioLess_def sqrt_greater_iff_signed)
  next
    case 3
    then show ?thesis by (simp add: sqrtRatioLess_def)
  qed
qed

lemma heuristicSyntheticScore_code [code]:
  "heuristicSyntheticScore rt text =
     (let lower = toLowerCase rt text;
          sentences = sentencesOf 5 lower
      in if length sentences < 3 then 0
         else
          (let phraseMatches = foldl (+) 0 (map (countOccurrences lower) LLM_PHRASES);
               phraseDensity = real phraseMatches / real (length sentences);
               signals1 = (if 0.15 < phraseDensity then 3 else if 0.05 < phraseDensity then 1 else 0);
               sentLengths = map (\<lambda>s. length (split_on isSpace (trim s))) sentences;
               avg = real (foldl (+) 0 sentLengths) / real (length sentLengths);
               variance = foldl (\<lambda>sum l. sum + (real l - avg) ^ 2) 0 sentLengths
                            / real (length sentLengths);
               d = (if avg = 0 then 1 else avg);
               signals2 = signals1
                  + (if sqrtRatioLess variance d 0.25 \<and> 5 < length sentences then 2
                     else if sqrtRatioLess variance d 0.35 \<and> 5 < length sentences then 1 else 0);
               words = matchAll lowerWordRegex lower;
               ttr = real (length (newSet words))
                       / real (if length words = 0 then 1 else length words);
               signals3 = signals2
                  + (if 100 < length words \<and> 0.35 < ttr \<and> ttr < 0.55 then 1 else 0);
               transCount = foldl (+) 0 (map (countOccurrences lower) transitions);
               transDensity = real transCount
                       / real (if length sentences = 0 then 1 else length sentences);
               signals4 = signals3
                  + (if 0.2 < transDensity then 2 else if 0.1 < transDensity then 1 else (0::nat))
           in min (real signals4 / 9) 1))"
  unfolding heuristicSyntheticScore_def sqrtRatioLess_def Let_def by (rule refl)

section \<open>Inference client\<close>

lemma hfInference_retried: "\<exists>v. hfInference net n True = (Inr v, [Fetch])"
  by (simp add: catch_null_def split: fetch_outcome.splits json_body.splits)

lemma hfInference_settles: "\<exists>v evs. hfInference net n retried = (Inr v, evs)"
proof (cases retried)
  case True
  then show ?thesis using hfInference_retried[of net n] by auto
next
  case False
  obtain v where "hfInference net (Suc n) True = (Inr v, [Fetch])"
    using hfInference_retried by blast
  then show ?thesis using False
    by (simp add: catch_null_def split: fetch_outcome.splits json_body.splits)
qed

lemma analyzeEntities_returns: "\<exists>m. analyzeEntities hf text = Inr m"
proof -
  obtain v evs where "hfInference (hf (truncated text)) 0 False = (Inr v, evs)"
    using hfInference_settles by blast
  then show ?thesis
    by (cases v) (auto simp: analyzeEntities_def Let_def split: hf_json.splits)
qed

lemma mlEntityData_returns: "\<exists>m. mlEntityData hf text = Inr m"
  using analyzeEntities_returns by (simp add: mlEntityData_def)



section \<open>Aggregator\<close>

lemma length_filter_sum_list: "length (filter P xs) = (\<Sum>x\<leftarrow>xs. if P x then 1 else 0)"
  by (induction xs) auto

lemma countLevel_filter:
  "length (filter (\<lambda>x. x = l) (map level (allSignals sg))) = countLevel l sg"
  by (simp add: countLevel_def length_filter_sum_list filter_map comp_def)

lemma avgScore_meanScore:
  "real_of_int (foldl (+) 0 (map score (allSignals sg))) / real (length (map score (allSignals sg)))
     = meanScore sg"
  by (simp add: meanScore_def allSignals_def)

lemma zip_filter_nonempty:
  "length xs = length ys \<Longrightarrow> l \<in> set xs \<Longrightarrow> filter (\<lambda>(x, n). x = l) (zip xs ys) \<noteq> []"
  by (induction xs ys rule: list_induct2) auto

text \<open>
  Claim C1. The confidence band of \<open>aggregate\<close> is high when at least three of the five
  levels are high or the mean score is at least 65; otherwise medium when at least one
  level is high, at least three are medium or the mean is at least 35; otherwise low.
\<close>

theorem aggregate_confidenceBand:
  "confidenceBand (aggregate sg c) = spec_confidenceBand sg"
  unfolding aggregate_def aggregate_band_def spec_confidenceBand_def Let_def
    countLevel_filter avgScore_meanScore
  by simp

text \<open>
  Claim C8. When all five signals are low, each with a score below its analyzer's medium
  cutoff, the confidence band is low and there are no disagreements.
\<close>

theorem aggregate_all_low:
  assumes "level (syntheticText sg) = Low" and "score (syntheticText sg) < 30"
    and "level (sourcing sg) = Low" and "score (sourcing sg) < 35"
    and "level (linguistic sg) = Low" and "score (linguistic sg) < 25"
    and "level (temporal sg) = Low" and "score (temporal sg) < 25"
    and "level (structural sg) = Low" and "score (structural sg) < 25"
  shows "confidenceBand (aggregate sg c) = Low \<and> disagreements (aggregate sg c) = []"
  using assms
  by (simp add: aggregate_def aggregate_band_def aggregate_disagreements_def allSignals_def Let_def)

theorem aggregate_all_low_witness:
  "level (syntheticText all_low) = Low \<and> score (syntheticText all_low) < 30
   \<and> level (sourcing all_low) = Low \<and> score (sourcing all_low) < 35
   \<and> level (linguistic all_low) = Low \<and> score (linguistic all_low) < 25
   \<and> level (temporal all_low) = Low \<and> score (temporal all_low) < 25
   \<and> level (structural all_low) = Low \<and> score (structural all_low) < 25
   \<and> confidenceBand (aggregate all_low (manual_paste nine_words)) = Low
   \<and> disagreements (aggregate all_low (manual_paste nine_words)) = []"
  using aggregate_all_low[of all_low "manual_paste nine_words"]
  by (simp add: all_low_def)


text \<open>
  Claim C10. The disagreements list has at most one entry, and has exactly one when the
  five levels hold both a high and a low.
\<close>

theorem aggregate_disagreements_at_most_one:
  "length (disagreements (aggregate sg c)) \<le> 1
   \<and> (length (disagreements (aggregate sg c)) = 1
        \<longleftrightarrow> High \<in> set (map level (allSignals sg)) \<and> Low \<in> set (map level (allSignals sg)))
   \<and> (disagreements (aggregate sg c) = []
        \<longleftrightarrow> \<not> (High \<in> set (map level (allSignals sg)) \<and> Low \<in> set (map level (allSignals sg))))"
proof -
  have len: "length (map level (allSignals sg)) = length signalNames"
    by (simp add: allSignals_def signalNames_def)
  show ?thesis
    using zip_filter_nonempty[OF len, of High] zip_filter_nonempty[OF len, of Low]
    by (simp add: aggregate_def aggregate_disagreements_def Let_def)
qed

section \<open>Sentiment wrapper\<close>

lemma sentiment_loop_top:
  "\<exists>t'. snd (foldl (sentimentStep rt) (sc, Some t) ls) = Some t'
        \<and> t' \<in> insert t (set ls)
        \<and> (\<forall>l \<in> insert t (set ls). entry_score l \<le> entry_score t')"
proof (induction ls arbitrary: sc t)
  case Nil
  then show ?case by simp
next
  case (Cons l ls)
  obtain sc1 t1 where step: "sentimentStep rt (sc, Some t) l = (sc1, Some t1)"
    and t1: "t1 = (if entry_score l > entry_score t then l else t)"
    by (simp add: sentimentStep_def Let_def)
  from Cons.IH[of sc1 t1] obtain t' where
    "snd (foldl (sentimentStep rt) (sc1, Some t1) ls) = Some t'"
    "t' \<in> insert t1 (set ls)"
    "\<forall>l \<in> insert t1 (set ls). entry_score l \<le> entry_score t'"
    by blast
  then show ?case using step t1 by (auto split: if_splits intro!: exI[of _ t'])
qed

text \<open>
  On a response whose first element is a non-empty list of classes, the wrapper returns
  the score of a class of maximal confidence, and the label is that class's label,
  lower-cased unless it is one of the bare digits.
\<close>

lemma analyzeSentiment_top_class:
  assumes "modelResponse hf text = Inr (Some (Array (ItemList (l # ls) # rest)))"
  shows "\<exists>s t. analyzeSentiment rt hf text = Inr (Some s)
           \<and> t \<in> set (l # ls)
           \<and> (\<forall>x \<in> set (l # ls). entry_score x \<le> entry_score t)
           \<and> sentiment_score s = entry_score t
           \<and> sentiment_label s = (if label t = js ''0'' then js ''negative''
                                   else if label t = js ''1'' then js ''neutral''
                                   else if label t = js ''2'' then js ''positive''
                                   else toLowerCase rt (label t))"
proof -
  obtain t where t: "snd (foldl (sentimentStep rt) ([], Some l) (l # ls)) = Some t"
    "t \<in> insert l (set (l # ls))"
    "\<forall>x \<in> insert l (set (l # ls)). entry_score x \<le> entry_score t"
    using sentiment_loop_top[where rt=rt and sc="[]" and t=l and ls="l # ls"] by blast
  obtain sc where f: "foldl (sentimentStep rt) ([], Some l) (l # ls) = (sc, Some t)"
    using t(1) by (cases "foldl (sentimentStep rt) ([], Some l) (l # ls)") auto
  have "analyzeSentiment rt hf text =
          Inr (Some \<lparr> sentiment_label = (if label t = js ''0'' then js ''negative''
                                          else if label t = js ''1'' then js ''neutral''
                                          else if label t = js ''2'' then js ''positive''
                                          else toLowerCase rt (label t)),
                       sentiment_score = entry_score t, scores = sc \<rparr>)"
    using assms f unfolding analyzeSentiment_def modelResponse_def Let_def
    by (simp del: foldl_Cons)
  then show ?thesis using t(2,3) by auto
qed

text \<open>
  Claim C7 says that the sentiment wrapper turns numeric class identifiers into the names
  negative, neutral and positive both in the keys of \<open>scores\<close> and in \<open>label\<close>. On a
  response labelled \<open>LABEL_0\<close>, \<open>LABEL_1\<close>, \<open>LABEL_2\<close> the keys are the three
  names, while the label of the top class comes back as \<open>label_2\<close>: the prefix is
  stripped for the keys only. With the bare digits as labels both are normalised.
\<close>

theorem analyzeSentiment_label_not_normalised:
  "analyzeSentiment rt (hf_responds numbered_sentiment) sixteen_words
     = Inr (Some \<lparr> sentiment_label = js ''label_2'', sentiment_score = 7 / 10,
                    scores = [(js ''negative'', 1 / 10), (js ''neutral'', 1 / 5), (js ''positive'', 7 / 10)] \<rparr>)
   \<and> analyzeSentiment rt (hf_responds bare_numbered_sentiment) sixteen_words
     = Inr (Some \<lparr> sentiment_label = js ''positive'', sentiment_score = 7 / 10,
                    scores = [(js ''negative'', 1 / 10), (js ''neutral'', 1 / 5), (js ''positive'', 7 / 10)] \<rparr>)"
  by code_simp

section \<open>Score ranges of the analyzers\<close>

lemma clamp_5_95: "5 \<le> max 5 (min 95 (x::int)) \<and> max 5 (min 95 x) \<le> 95"
  by simp

lemma analyzeSourcing_shape:
  "\<exists>G E0 L X E U D. analyzeSourcing hf c =
     (if G then Inr \<lparr> level = Medium, score = 50, explanation = E0, modelUsed = None, details = None \<rparr>
      else (case mlEntityData hf (body c) of
              Inl e \<Rightarrow> Inl e
            | Inr m \<Rightarrow> Inr \<lparr> level = L m, score = max 5 (min 95 (X m)), explanation = E m,
                              modelUsed = U m, details = D m \<rparr>))"
  unfolding analyzeSourcing_def Let_def by (intro exI) (rule refl)

lemma analyzeSourcing_score:
  assumes "analyzeSourcing hf c = Inr r"
  shows "5 \<le> score r \<and> score r \<le> 95"
proof -
  obtain G E0 L X E U D where sh: "analyzeSourcing hf c =
     (if G then Inr \<lparr> level = Medium, score = 50, explanation = E0, modelUsed = None, details = None \<rparr>
      else (case mlEntityData hf (body c) of
              Inl e \<Rightarrow> Inl e
            | Inr m \<Rightarrow> Inr \<lparr> level = L m, score = max 5 (min 95 (X m)), explanation = E m,
                              modelUsed = U m, details = D m \<rparr>))"
    using analyzeSourcing_shape by blast
  show ?thesis
    using assms unfolding sh by (auto split: if_splits sum.splits)
qed

lemma analyzeSourcing_returns: "\<exists>r. analyzeSourcing hf c = Inr r"
proof -
  obtain G E0 L X E U D where sh: "analyzeSourcing hf c =
     (if G then Inr \<lparr> level = Medium, score = 50, explanation = E0, modelUsed = None, details = None \<rparr>
      else (case mlEntityData hf (body c) of
              Inl e \<Rightarrow> Inl e
            | Inr m \<Rightarrow> Inr \<lparr> level = L m, score = max 5 (min 95 (X m)), explanation = E m,
                              modelUsed = U m, details = D m \<rparr>))"
    using analyzeSourcing_shape by blast
  obtain m where "mlEntityData hf (body c) = Inr m" using mlEntityData_returns by blast
  then show ?thesis unfolding sh by simp
qed

lemma analyzeLinguistic_shape:
  "\<exists>G E0 L X E U D. analyzeLinguistic rt hf c =
     (if G then Inr \<lparr> level = Low, score = 15, explanation = E0, modelUsed = None, linguistic_details = None \<rparr>
      else (case mlSentiment rt hf (body c) of
              Inl e \<Rightarrow> Inl e
            | Inr m \<Rightarrow> Inr \<lparr> level = L m, score = max 5 (min 95 (X m)), explanation = E m,
                              modelUsed = U m, linguistic_details = D m \<rparr>))"
  unfolding analyzeLinguistic_def Let_def by (intro exI) (rule refl)

lemma analyzeLinguistic_score:
  assumes "analyzeLinguistic rt hf c = Inr r"
  shows "5 \<le> score r \<and> score r \<le> 95"
proof -
  obtain G E0 L X E U D where sh: "analyzeLinguistic rt hf c =
     (if G then Inr \<lparr> level = Low, score = 15, explanation = E0, modelUsed = None, linguistic_details = None \<rparr>
      else (case mlSentiment rt hf (body c) of
              Inl e \<Rightarrow> Inl e
            | Inr m \<Rightarrow> Inr \<lparr> level = L m, score = max 5 (min 95 (X m)), explanation = E m,
                              modelUsed = U m, linguistic_details = D m \<rparr>))"
    using analyzeLinguistic_shape by blast
  show ?thesis
    using assms unfolding sh by (auto split: if_splits sum.splits)
qed

lemma analyzeTemporal_shape:
  "\<exists>G E0 L X E C. analyzeTemporal rt key news c =
     (if G then \<lparr> level = Medium, score = 50, explanation = E0, corroboration = None \<rparr>
      else \<lparr> level = L, score = max 5 (min 95 X), explanation = E, corroboration = C \<rparr>)"
  unfolding analyzeTemporal_def Let_def by (intro exI) (rule refl)

lemma analyzeTemporal_score:
  "5 \<le> score (analyzeTemporal rt key news c) \<and> score (analyzeTemporal rt key news c) \<le> 95"
proof -
  obtain G E0 L X E C where sh: "analyzeTemporal rt key news c =
     (if G then \<lparr> level = Medium, score = 50, explanation = E0, corroboration = None \<rparr>
      else \<lparr> level = L, score = max 5 (min 95 X), explanation = E, corroboration = C \<rparr>)"
    using analyzeTemporal_shape by blast
  show ?thesis unfolding sh by simp
qed

lemma analyzeStructural_shape:
  "\<exists>G E0 L X E P. analyzeStructural rt ps c =
     (if G then (\<lparr> level = Medium, score = 50, explanation = E0 \<rparr>, ps)
      else (\<lparr> level = L, score = max 5 (min 95 X), explanation = E \<rparr>, P))"
  unfolding analyzeStructural_def Let_def by (intro exI) (rule refl)

lemma analyzeStructural_score:
  "5 \<le> score (fst (analyzeStructural rt ps c)) \<and> score (fst (analyzeStructural rt ps c)) \<le> 95"
proof -
  obtain G E0 L X E P where sh: "analyzeStructural rt ps c =
     (if G then (\<lparr> level = Medium, score = 50, explanation = E0 \<rparr>, ps)
      else (\<lparr> level = L, score = max 5 (min 95 X), explanation = E \<rparr>, P))"
    using analyzeStructural_shape by blast
  show ?thesis unfolding sh by simp
qed

lemma heuristicSyntheticScore_shape:
  "\<exists>G (n::nat). heuristicSyntheticScore rt text = (if G then 0 else min (real n / 9) 1)"
  unfolding heuristicSyntheticScore_def Let_def by (intro exI) (rule refl)

lemma heuristicSyntheticScore_range:
  "0 \<le> heuristicSyntheticScore rt text \<and> heuristicSyntheticScore rt text \<le> 1"
proof -
  obtain G and n :: nat where "heuristicSyntheticScore rt text = (if G then 0 else min (real n / 9) 1)"
    using heuristicSyntheticScore_shape by blast
  then show ?thesis by simp
qed

lemma Math_round_percent:
  assumes "0 \<le> x" and "x \<le> 1"
  shows "0 \<le> Math_round (x * 100) \<and> Math_round (x * 100) \<le> 100"
proof -
  have "0 \<le> x * 100 + 1 / 2" using assms by simp
  then have lo: "0 \<le> \<lfloor>x * 100 + 1 / 2\<rfloor>" by simp
  have "x * 100 + 1 / 2 < 101" using assms by simp
  then have "\<lfloor>x * 100 + 1 / 2\<rfloor> < 101" by (simp add: floor_less_iff)
  with lo show ?thesis by (simp add: Math_round_def)
qed

lemma analyzeSyntheticText_shape:
  "\<exists>E0 L E U P. analyzeSyntheticText rt hf c =
     (if length (sentencesOf 5 (body c)) < 3
      then Inr \<lparr> level = Low, score = 10, explanation = E0, modelUsed = Some False,
                 syntheticProbability = None \<rparr>
      else (case mlSyntheticScore hf (body c) of
              Inl e \<Rightarrow> Inl e
            | Inr m \<Rightarrow> Inr \<lparr> level = L m,
                              score = Math_round ((case m of
                                          Some p \<Rightarrow> p * 0.7 + heuristicSyntheticScore rt (body c) * 0.3
                                        | None \<Rightarrow> heuristicSyntheticScore rt (body c)) * 100),
                              explanation = E m, modelUsed = U m, syntheticProbability = P m \<rparr>))"
  unfolding analyzeSyntheticText_def Let_def by (intro exI) (rule refl)

lemma analyzeSyntheticText_score:
  assumes "analyzeSyntheticText rt hf c = Inr r"
  shows "(length (sentencesOf 5 (body c)) < 3 \<longrightarrow> score r = 10)
       \<and> ((\<forall>p. mlSyntheticScore hf (body c) = Inr (Some p) \<longrightarrow> 0 \<le> p \<and> p \<le> 1)
            \<longrightarrow> 0 \<le> score r \<and> score r \<le> 100)"
proof -
  obtain E0 L E U P where sh: "analyzeSyntheticText rt hf c =
     (if length (sentencesOf 5 (body c)) < 3
      then Inr \<lparr> level = Low, score = 10, explanation = E0, modelUsed = Some False,
                 syntheticProbability = None \<rparr>
      else (case mlSyntheticScore hf (body c) of
              Inl e \<Rightarrow> Inl e
            | Inr m \<Rightarrow> Inr \<lparr> level = L m,
                              score = Math_round ((case m of
                                          Some p \<Rightarrow> p * 0.7 + heuristicSyntheticScore rt (body c) * 0.3
                                        | None \<Rightarrow> heuristicSyntheticScore rt (body c)) * 100),
                              explanation = E m, modelUsed = U m, syntheticProbability = P m \<rparr>))"
    using analyzeSyntheticText_shape by blast
  let ?h = "heuristicSyntheticScore rt (body c)"
  have h: "0 \<le> ?h" "?h \<le> 1" using heuristicSyntheticScore_range by auto
  show ?thesis
  proof (cases "length (sentencesOf 5 (body c)) < 3")
    case True
    with assms sh show ?thesis by auto
  next
    case False
    with assms sh obtain m where m: "mlSyntheticScore hf (body c) = Inr m"
      and sc: "score r = Math_round ((case m of Some p \<Rightarrow> p * 0.7 + ?h * 0.3 | None \<Rightarrow> ?h) * 100)"
      by (cases "mlSyntheticScore hf (body c)") auto
    {
      assume ok: "\<forall>p. mlSyntheticScore hf (body c) = Inr (Some p) \<longrightarrow> 0 \<le> p \<and> p \<le> 1"
      have "0 \<le> (case m of Some p \<Rightarrow> p * 0.7 + ?h * 0.3 | None \<Rightarrow> ?h)
          \<and> (case m of Some p \<Rightarrow> p * 0.7 + ?h * 0.3 | None \<Rightarrow> ?h) \<le> 1"
      proof (cases m)
        case None
        then show ?thesis using h by simp
      next
        case (Some p)
        with ok m have "0 \<le> p" "p \<le> 1" by auto
        with h Some show ?thesis by simp
      qed
      then have "0 \<le> score r \<and> score r \<le> 100"
        using Math_round_percent sc by simp
    }
    with False show ?thesis by blast
  qed
qed

text \<open>
  Claim C2, as amended. Whatever the Content, the runtime and the external responses,
  the results of the sourcing, linguistic, temporal and structural analyzers have a score
  between 5 and 95, on the computed and on the canned path. The synthetic-text analyzer
  does not clamp: its score is the rounded percentage of the combined probability,
  between 0 and 100 whenever the model's probability, if there is one, lies between 0 and
  1, and its canned score is 10.
\<close>

theorem analyzer_score_ranges:
  "(\<exists>r1. analyzeSourcing hfN c = Inr r1 \<and> 5 \<le> score r1 \<and> score r1 \<le> 95)
   \<and> (analyzeLinguistic rt hfS c = Inr r2 \<longrightarrow> 5 \<le> score r2 \<and> score r2 \<le> 95)
   \<and> 5 \<le> score (analyzeTemporal rt key news c) \<and> score (analyzeTemporal rt key news c) \<le> 95
   \<and> 5 \<le> score (fst (analyzeStructural rt patterns c))
   \<and> score (fst (analyzeStructural rt patterns c)) \<le> 95
   \<and> (analyzeSyntheticText rt hfD c = Inr r3
         \<and> (\<forall>p. mlSyntheticScore hfD (body c) = Inr (Some p) \<longrightarrow> 0 \<le> p \<and> p \<le> 1)
        \<longrightarrow> 0 \<le> score r3 \<and> score r3 \<le> 100)
   \<and> (analyzeSyntheticText rt hfD' c' = Inr r4 \<and> length (sentencesOf 5 (body c')) < 3
        \<longrightarrow> score r4 = 10)"
  using analyzeSourcing_returns[of hfN c] analyzeSourcing_score[of hfN c]
    analyzeLinguistic_score[of rt hfS c r2]
    analyzeTemporal_score[of rt key news c] analyzeStructural_score[of rt patterns c]
    analyzeSyntheticText_score[of rt hfD c r3] analyzeSyntheticText_score[of rt hfD' c' r4]
  by blast

theorem analyzer_score_ranges_witness:
  "analyzeSourcing hf_unavailable (manual_paste sixteen_words)
     = Inr \<lparr> level = Medium, score = 50,
             explanation = js ''Limited sourcing: 0 named sources vs 0 unsupported or anonymous claims. Assessed via pattern matching (ML unavailable).'',
             modelUsed = Some False,
             details = Some \<lparr> namedSources = 0, anonymousClaims = 0, externalLinks = 0,
                              namedEntities = [] \<rparr> \<rparr>
   \<and> analyzeLinguistic some_runtime hf_unavailable (manual_paste sixteen_words)
     = Inr \<lparr> level = Low, score = 5,
             explanation = js ''Language appears measured and informational. No significant manipulation patterns detected.'',
             modelUsed = Some False,
             linguistic_details = Some \<lparr> details_emotionalIntensity = 0, certaintyWithoutEvidence = 0,
                                         narrativeTropes = 0, details_sentiment = None \<rparr> \<rparr>
   \<and> analyzeSyntheticText some_runtime (hf_responds detector_says_fake) (manual_paste sixteen_words)
     = Inr \<lparr> level = High, score = 63,
             explanation = js ''Strong indicators suggest this text may be AI-generated (63% synthetic probability). Assessed using RoBERTa classifier (roberta-base-openai-detector).'',
             modelUsed = Some True, syntheticProbability = Some 63 \<rparr>
   \<and> mlSyntheticScore (hf_responds detector_says_fake) (body (manual_paste sixteen_words))
     = Inr (Some (9 / 10))
   \<and> analyzeSyntheticText some_runtime hf_unavailable (manual_paste two_sentences)
     = Inr \<lparr> level = Low, score = 10,
             explanation = js ''Text is too short for meaningful synthetic pattern analysis.'',
             modelUsed = Some False, syntheticProbability = None \<rparr>
   \<and> length (sentencesOf 5 (body (manual_paste two_sentences))) < 3
   \<and> 5 \<le> score (analyzeTemporal some_runtime [] (news_responds []) (manual_paste sixteen_words))
   \<and> score (analyzeTemporal some_runtime [] (news_responds []) (manual_paste sixteen_words)) \<le> 95
   \<and> 5 \<le> score (fst (analyzeStructural some_runtime CLICKBAIT_PATTERNS (manual_paste sixteen_words)))
   \<and> score (fst (analyzeStructural some_runtime CLICKBAIT_PATTERNS (manual_paste sixteen_words))) \<le> 95"
proof -
  have a: "analyzeSourcing hf_unavailable (manual_paste sixteen_words)
     = Inr \<lparr> level = Medium, score = 50,
             explanation = js ''Limited sourcing: 0 named sources vs 0 unsupported or anonymous claims. Assessed via pattern matching (ML unavailable).'',
             modelUsed = Some False,
             details = Some \<lparr> namedSources = 0, anonymousClaims = 0, externalLinks = 0,
                              namedEntities = [] \<rparr> \<rparr>"
    by code_simp
  have b: "analyzeLinguistic some_runtime hf_unavailable (manual_paste sixteen_words)
     = Inr \<lparr> level = Low, score = 5,
             explanation = js ''Language appears measured and informational. No significant manipulation patterns detected.'',
             modelUsed = Some False,
             linguistic_details = Some \<lparr> details_emotionalIntensity = 0, certaintyWithoutEvidence = 0,
                                         narrativeTropes = 0, details_sentiment = None \<rparr> \<rparr>"
    by code_simp
  have c: "analyzeSyntheticText some_runtime (hf_responds detector_says_fake) (manual_paste sixteen_words)
     = Inr \<lparr> level = High, score = 63,
             explanation = js ''Strong indicators suggest this text may be AI-generated (63% synthetic probability). Assessed using RoBERTa classifier (roberta-base-openai-detector).'',
             modelUsed = Some True, syntheticProbability = Some 63 \<rparr>"
    by code_simp
  have d: "mlSyntheticScore (hf_responds detector_says_fake) (body (manual_paste sixteen_words))
     = Inr (Some (9 / 10))"
    by code_simp
  have e: "analyzeSyntheticText some_runtime hf_unavailable (manual_paste two_sentences)
     = Inr \<lparr> level = Low, score = 10,
             explanation = js ''Text is too short for meaningful synthetic pattern analysis.'',
             modelUsed = Some False, syntheticProbability = None \<rparr>"
    by code_simp
  have f: "length (sentencesOf 5 (body (manual_paste two_sentences))) < 3"
    by code_simp
  from d have g: "\<forall>p. mlSyntheticScore (hf_responds detector_says_fake)
                        (body (manual_paste sixteen_words)) = Inr (Some p) \<longrightarrow> 0 \<le> p \<and> p \<le> 1"
    by simp
  show ?thesis
    using analyzer_score_ranges
            [of hf_unavailable "manual_paste sixteen_words" some_runtime hf_unavailable _
                "[]" "news_responds []" CLICKBAIT_PATTERNS "hf_responds detector_says_fake" _
                hf_unavailable "manual_paste two_sentences" _]
          a b c d e f g
    by simp
qed

text \<open>
  Claim C2 as stated fails for the synthetic-text analyzer: three plain sentences, with
  the model unreachable, score 0.
\<close>

theorem synthetic_score_below_five:
  "\<forall>rt. analyzeSyntheticText rt hf_unavailable (manual_paste three_short_sentences)
          = Inr unclamped_result
        \<and> score unclamped_result = 0
        \<and> \<not> (5 \<le> score unclamped_result \<and> score unclamped_result \<le> 95)"
  by (intro allI) code_simp

section \<open>Minimum-length guards\<close>




text \<open>
  The guards count code units and split at every white space of JavaScript. A no-break
  space separates words like a space does: the text of fourteen words is cut into
  fourteen pieces and the linguistic guard fires. A typographic apostrophe is one unit:
  each of the two sentences is 9 units long, so neither counts for the sourcing guard,
  which fires.
\<close>

lemma guards_count_code_units:
  "length (split_on isSpace fourteen_words_nbsp) = 14
   \<and> analyzeLinguistic rt hf (manual_paste fourteen_words_nbsp)
        = Inr \<lparr> level = Low, score = 15,
                explanation = js ''Text is too short for meaningful linguistic risk analysis.'',
                modelUsed = None, linguistic_details = None \<rparr>
   \<and> map length (map trim (split_on isSentenceEnd two_short_sentences)) = [9, 9, 0]
   \<and> length (sentencesOf 10 two_short_sentences) = 0
   \<and> analyzeSourcing hf' (signed_article (js ''Bob'') two_short_sentences)
        = Inr \<lparr> level = Medium, score = 50,
                explanation = js ''Text is too short to meaningfully assess sourcing patterns.'',
                modelUsed = None, details = None \<rparr>"
proof -
  have a: "length (split_on isSpace fourteen_words_nbsp) = 14" by code_simp
  have b: "map length (map trim (split_on isSentenceEnd two_short_sentences)) = [9, 9, 0]"
    by code_simp
  have c: "length (sentencesOf 10 two_short_sentences) = 0" by code_simp
  show ?thesis
    using a b c
    by (simp add: analyzeLinguistic_def analyzeSourcing_def Let_def manual_paste_def
          signed_article_def)
qed

section \<open>Sourcing score\<close>

lemma analyzeSourcing_computed:
  "\<exists>L E. analyzeSourcing hf c =
     (if length (sentencesOf 10 (body c)) < 2
      then Inr \<lparr> level = Medium, score = 50,
                 explanation = js ''Text is too short to meaningfully assess sourcing patterns.'',
                 modelUsed = None, details = None \<rparr>
      else (case mlEntityData hf (body c) of
              Inl e \<Rightarrow> Inl e
            | Inr m \<Rightarrow>
               Inr \<lparr> level = L m,
                     score = max 5 (min 95
                            (if truthy (author c)
                             then 50 - min (int (case m of Some x \<Rightarrow> person_count x + org_count x
                                                  | None \<Rightarrow> regexSourceCount (body c)) * 8) 30
                                    + min (int (regexAnonCount (body c)) * 5) 15
                                    + min (int (claimCount (body c)) * 3) 20
                                    - min (int (length (matchAll linkRegex (body c))) * 3) 10 - 5
                             else 50 - min (int (case m of Some x \<Rightarrow> person_count x + org_count x
                                                  | None \<Rightarrow> regexSourceCount (body c)) * 8) 30
                                    + min (int (regexAnonCount (body c)) * 5) 15
                                    + min (int (claimCount (body c)) * 3) 20
                                    - min (int (length (matchAll linkRegex (body c))) * 3) 10)),
                     explanation = E m,
                     modelUsed = Some (m \<noteq> None),
                     details = Some \<lparr> namedSources = (case m of Some x \<Rightarrow> person_count x + org_count x
                                                        | None \<Rightarrow> regexSourceCount (body c)),
                                      anonymousClaims = regexAnonCount (body c),
                                      externalLinks = length (matchAll linkRegex (body c)),
                                      namedEntities =
                                        take 6 (case m of
                                           Some x \<Rightarrow> newSet (map word
                                             (filter (\<lambda>e. entity_group e = js ''PER'' \<or> entity_group e = js ''ORG'')
                                                (entities x)))
                                         | None \<Rightarrow> []) \<rparr> \<rparr>))"
  unfolding analyzeSourcing_def Let_def by (intro exI) (rule refl)

lemma analyzeSourcing_level:
  "\<exists>R S E U D. analyzeSourcing hf c =
     (if length (sentencesOf 10 (body c)) < 2 then Inr R
      else (case mlEntityData hf (body c) of
              Inl e \<Rightarrow> Inl e
            | Inr m \<Rightarrow>
               Inr \<lparr> level = (if 60 \<le> S m then High else if 35 \<le> S m then Medium else Low),
                     score = S m, explanation = E m, modelUsed = U m, details = D m \<rparr>))"
  unfolding analyzeSourcing_def Let_def by (intro exI) (rule refl)

lemma analyzeSourcing_level_of_score:
  assumes "\<not> length (sentencesOf 10 (body c)) < 2" and "analyzeSourcing hf c = Inr r"
  shows "level r = (if 60 \<le> score r then High else if 35 \<le> score r then Medium else Low)"
proof -
  obtain R S E U D where sh: "analyzeSourcing hf c =
     (if length (sentencesOf 10 (body c)) < 2 then Inr R
      else (case mlEntityData hf (body c) of
              Inl e \<Rightarrow> Inl e
            | Inr m \<Rightarrow>
               Inr \<lparr> level = (if 60 \<le> S m then High else if 35 \<le> S m then Medium else Low),
                     score = S m, explanation = E m, modelUsed = U m, details = D m \<rparr>))"
    using analyzeSourcing_level by blast
  show ?thesis
    using assms unfolding sh by (auto split: sum.splits)
qed

lemma analyzeSourcing_score_details:
  assumes "\<not> length (sentencesOf 10 (body c)) < 2"
    and "mlEntityData hf (body c) = Inr m"
  shows "\<exists>r d. analyzeSourcing hf c = Inr r \<and> details r = Some d
           \<and> namedSources d = (case m of Some x \<Rightarrow> person_count x + org_count x
                                | None \<Rightarrow> regexSourceCount (body c))
           \<and> anonymousClaims d = regexAnonCount (body c)
           \<and> externalLinks d = length (matchAll linkRegex (body c))
           \<and> score r = spec_sourcingScore (namedSources d) (anonymousClaims d) (claimCount (body c))
                          (externalLinks d) (truthy (author c))"
proof -
  obtain L E where a: "analyzeSourcing hf c =
     (if length (sentencesOf 10 (body c)) < 2
      then Inr \<lparr> level = Medium, score = 50,
                 explanation = js ''Text is too short to meaningfully assess sourcing patterns.'',
                 modelUsed = None, details = None \<rparr>
      else (case mlEntityData hf (body c) of
              Inl e \<Rightarrow> Inl e
            | Inr m \<Rightarrow>
               Inr \<lparr> level = L m,
                     score = max 5 (min 95
                            (if truthy (author c)
                             then 50 - min (int (case m of Some x \<Rightarrow> person_count x + org_count x
                                                  | None \<Rightarrow> regexSourceCount (body c)) * 8) 30
                                    + min (int (regexAnonCount (body c)) * 5) 15
                                    + min (int (claimCount (body c)) * 3) 20
                                    - min (int (length (matchAll linkRegex (body c))) * 3) 10 - 5
                             else 50 - min (int (case m of Some x \<Rightarrow> person_count x + org_count x
                                                  | None \<Rightarrow> regexSourceCount (body c)) * 8) 30
                                    + min (int (regexAnonCount (body c)) * 5) 15
                                    + min (int (claimCount (body c)) * 3) 20
                                    - min (int (length (matchAll linkRegex (body c))) * 3) 10)),
                     explanation = E m,
                     modelUsed = Some (m \<noteq> None),
                     details = Some \<lparr> namedSources = (case m of Some x \<Rightarrow> person_count x + org_count x
                                                        | None \<Rightarrow> regexSourceCount (body c)),
                                      anonymousClaims = regexAnonCount (body c),
                                      externalLinks = length (matchAll linkRegex (body c)),
                                      namedEntities =
                                        take 6 (case m of
                                           Some x \<Rightarrow> newSet (map word
                                             (filter (\<lambda>e. entity_group e = js ''PER'' \<or> entity_group e = js ''ORG'')
                                                (entities x)))
                                         | None \<Rightarrow> []) \<rparr> \<rparr>))"
    using analyzeSourcing_computed by blast
  define N where "N = (case m of Some x \<Rightarrow> person_count x + org_count x
                       | None \<Rightarrow> regexSourceCount (body c))"
  have sc: "max 5 (min 95
              (if truthy (author c)
               then 50 - min (int N * 8) 30 + min (int (regexAnonCount (body c)) * 5) 15
                      + min (int (claimCount (body c)) * 3) 20
                      - min (int (length (matchAll linkRegex (body c))) * 3) 10 - 5
               else 50 - min (int N * 8) 30 + min (int (regexAnonCount (body c)) * 5) 15
                      + min (int (claimCount (body c)) * 3) 20
                      - min (int (length (matchAll linkRegex (body c))) * 3) 10))
            = spec_sourcingScore N (regexAnonCount (body c)) (claimCount (body c))
                (length (matchAll linkRegex (body c))) (truthy (author c))"
    by (simp add: spec_sourcingScore_def spec_clamp_def)
  show ?thesis
    unfolding a using assms(1)
    by (simp only: assms(2) if_False sum.case N_def[symmetric] sc) simp
qed

text \<open>
  Claim C5. For a Content that passes the sourcing guard, and whatever the entity model
  returns, the analyzer returns a result whose score is the clamped sum of the
  specification over the counts it reports, with the level read off the score at 60 and
  35; an author, two named sources and no anonymous claim, unattributed claim or link
  give score 29 and level low.
\<close>

theorem analyzeSourcing_score_formula:
  assumes "\<not> length (sentencesOf 10 (body c)) < 2"
  shows "\<exists>r d m. mlEntityData hf (body c) = Inr m
           \<and> analyzeSourcing hf c = Inr r \<and> details r = Some d
           \<and> namedSources d = (case m of Some x \<Rightarrow> person_count x + org_count x
                                | None \<Rightarrow> regexSourceCount (body c))
           \<and> anonymousClaims d = regexAnonCount (body c)
           \<and> externalLinks d = length (matchAll linkRegex (body c))
           \<and> score r = spec_sourcingScore (namedSources d) (anonymousClaims d) (claimCount (body c))
                          (externalLinks d) (truthy (author c))
           \<and> (level r = High \<longleftrightarrow> 60 \<le> score r)
           \<and> (level r = Medium \<longleftrightarrow> 35 \<le> score r \<and> score r < 60)
           \<and> (level r = Low \<longleftrightarrow> score r < 35)
           \<and> (truthy (author c) \<and> namedSources d = 2 \<and> anonymousClaims d = 0
                \<and> claimCount (body c) = 0 \<and> externalLinks d = 0
                \<longrightarrow> score r = 29 \<and> level r = Low)"
proof -
  obtain m where m: "mlEntityData hf (body c) = Inr m" using mlEntityData_returns by blast
  obtain r d where r: "analyzeSourcing hf c = Inr r" and d: "details r = Some d"
    and n: "namedSources d = (case m of Some x \<Rightarrow> person_count x + org_count x
                                | None \<Rightarrow> regexSourceCount (body c))"
    and an: "anonymousClaims d = regexAnonCount (body c)"
    and li: "externalLinks d = length (matchAll linkRegex (body c))"
    and sc: "score r = spec_sourcingScore (namedSources d) (anonymousClaims d) (claimCount (body c))
                          (externalLinks d) (truthy (author c))"
    using analyzeSourcing_score_details[OF assms m] by blast
  have lv: "level r = (if 60 \<le> score r then High else if 35 \<le> score r then Medium else Low)"
    using analyzeSourcing_level_of_score[OF assms r] .
  have hi: "level r = High \<longleftrightarrow> 60 \<le> score r" using lv by simp
  have me: "level r = Medium \<longleftrightarrow> 35 \<le> score r \<and> score r < 60" using lv by auto
  have lo: "level r = Low \<longleftrightarrow> score r < 35" using lv by auto
  have ex: "truthy (author c) \<and> namedSources d = 2 \<and> anonymousClaims d = 0
              \<and> claimCount (body c) = 0 \<and> externalLinks d = 0
            \<longrightarrow> score r = 29 \<and> level r = Low"
  proof
    assume h: "truthy (author c) \<and> namedSources d = 2 \<and> anonymousClaims d = 0
                 \<and> claimCount (body c) = 0 \<and> externalLinks d = 0"
    have "spec_sourcingScore 2 0 0 0 True = 29"
      by (simp add: spec_sourcingScore_def spec_clamp_def)
    with sc h have "score r = 29" by simp
    with lo show "score r = 29 \<and> level r = Low" by simp
  qed
  show ?thesis
    using m r d n an li sc hi me lo ex by blast
qed

theorem analyzeSourcing_score_formula_witness:
  "\<not> length (sentencesOf 10 (body (signed_article (js ''Bob'') two_sentences))) < 2
   \<and> mlEntityData (hf_responds two_entities) (body (signed_article (js ''Bob'') two_sentences))
       = Inr (Some \<lparr> person_count = 1, org_count = 1,
                     entities = [\<lparr> word = js ''Alice'', entity_group = js ''PER'', entity_score = 99 / 100 \<rparr>,
                                 \<lparr> word = js ''Acme'', entity_group = js ''ORG'', entity_score = 9 / 10 \<rparr>] \<rparr>)
   \<and> truthy (author (signed_article (js ''Bob'') two_sentences))
   \<and> regexAnonCount (body (signed_article (js ''Bob'') two_sentences)) = 0
   \<and> claimCount (body (signed_article (js ''Bob'') two_sentences)) = 0
   \<and> length (matchAll linkRegex (body (signed_article (js ''Bob'') two_sentences))) = 0
   \<and> (\<exists>r. analyzeSourcing (hf_responds two_entities) (signed_article (js ''Bob'') two_sentences) = Inr r
          \<and> score r = 29 \<and> level r = Low)"
proof -
  have g: "\<not> length (sentencesOf 10 (body (signed_article (js ''Bob'') two_sentences))) < 2"
    by code_simp
  have m: "mlEntityData (hf_responds two_entities) (body (signed_article (js ''Bob'') two_sentences))
       = Inr (Some \<lparr> person_count = 1, org_count = 1,
                     entities = [\<lparr> word = js ''Alice'', entity_group = js ''PER'', entity_score = 99 / 100 \<rparr>,
                                 \<lparr> word = js ''Acme'', entity_group = js ''ORG'', entity_score = 9 / 10 \<rparr>] \<rparr>)"
    by code_simp
  have au: "truthy (author (signed_article (js ''Bob'') two_sentences))" by code_simp
  have an: "regexAnonCount (body (signed_article (js ''Bob'') two_sentences)) = 0" by code_simp
  have cl: "claimCount (body (signed_article (js ''Bob'') two_sentences)) = 0" by code_simp
  have li: "length (matchAll linkRegex (body (signed_article (js ''Bob'') two_sentences))) = 0"
    by code_simp
  show ?thesis
    using analyzeSourcing_score_formula[OF g, of "hf_responds two_entities"] g m au an cl li
    by auto
qed

section \<open>Corroboration\<close>

lemma newSet_distinct: "distinct (newSet xs)"
  by (simp add: newSet_def)

lemma newSet_set: "set (newSet xs) = set xs"
  by (simp add: newSet_def)

text \<open>The similarity the client computes is the Jaccard index of the two sets of words.\<close>

lemma textSimilarity_jaccard:
  "textSimilarity rt a b = spec_jaccard (spec_words rt a) (spec_words rt b)"
proof -
  define A where "A = filter (\<lambda>w. 3 < length w) (split_on isSpace (toLowerCase rt a))"
  define B where "B = filter (\<lambda>w. 3 < length w) (split_on isSpace (toLowerCase rt b))"
  have i: "length (filter (\<lambda>w. w \<in> set (newSet B)) (newSet A)) = card (set A \<inter> set B)"
  proof -
    have "{x. x \<in> set B} \<inter> set A = set A \<inter> set B" by auto
    then show ?thesis
      using distinct_length_filter[OF newSet_distinct[of A], of "\<lambda>w. w \<in> set (newSet B)"]
      by (simp add: newSet_set)
  qed
  have u: "length (newSet (newSet A @ newSet B)) = card (set A \<union> set B)"
    using distinct_card[OF newSet_distinct[of "newSet A @ newSet B"]]
    by (simp add: newSet_set)
  have z: "(0 < card (set A \<union> set B)) = (set A \<union> set B \<noteq> {})"
    by (simp add: card_gt_0_iff)
  show ?thesis
    unfolding textSimilarity_def Let_def spec_jaccard_def spec_words_def
      A_def[symmetric] B_def[symmetric] i u z
    by simp
qed

lemma corroboration_loop:
  "foldl (corroborationStep rt b) (srcs, doms, n) as = (srcs', doms', n') \<Longrightarrow> distinct doms \<Longrightarrow>
     distinct doms'
     \<and> set doms' = set doms \<union> set (filter truthy (map (\<lambda>a. orEmpty (article_source_name a)) as))
     \<and> n' = n + spec_highSimilarityCount rt b as"
proof (induction as arbitrary: srcs doms n)
  case Nil
  then show ?case by (simp add: spec_highSimilarityCount_def)
next
  case (Cons a as)
  obtain s1 d1 n1 where step: "corroborationStep rt b (srcs, doms, n) a = (s1, d1, n1)"
    by (cases "corroborationStep rt b (srcs, doms, n) a") auto
  have d1: "d1 = (if truthy (orEmpty (article_source_name a))
                  then setAdd (orEmpty (article_source_name a)) doms else doms)"
    and n1: "n1 = (if 0.35 < spec_articleSimilarity rt b a then n + 1 else n)"
    using step
    by (auto simp: corroborationStep_def Let_def spec_articleSimilarity_def textSimilarity_jaccard)
  have dist1: "distinct d1" using Cons.prems(2) d1 by (auto simp: setAdd_def)
  have set1: "set d1 = set doms \<union> set (filter truthy [orEmpty (article_source_name a)])"
    using d1 by (auto simp: setAdd_def)
  from Cons.prems(1) step
  have "foldl (corroborationStep rt b) (s1, d1, n1) as = (srcs', doms', n')"
    by simp
  from Cons.IH[OF this dist1] set1 n1 show ?case
    by (auto simp: spec_highSimilarityCount_def)
qed

lemma checkCorroboration_returns:
  assumes "truthy key"
    and "10 \<le> length (extractKeywords rt (body c) 8)"
    and "news (extractKeywords rt (body c) 8) = Response status (Parsed (Some d))"
    and "res_ok status"
    and "articles d = Some as"
    and "as \<noteq> []"
    and "foldl (corroborationStep rt (take 800 (body c))) ([], [], 0) (take 8 as) = (srcs, doms, n)"
  shows "\<exists>sm. checkCorroboration rt key news c =
          Some \<lparr> found = length as, sources = take 5 srcs, uniqueSourceCount = length doms,
                 independentPhrasing = (3 \<le> length doms \<and> n < 3),
                 query = Some (extractKeywords rt (body c) 8),
                 corroboration_summary = sm \<rparr>"
proof -
  have q: "truthy (extractKeywords rt (body c) 8)" using assms(2) by (auto simp: truthy_def)
  show ?thesis
    using assms q
    by (simp add: checkCorroboration_def checkCorroboration_try_def Let_def)
qed

text \<open>
  Claim C6, as amended. When the client is configured, the query is long enough and the
  search answers with a non-empty list of articles, the client returns a result whose
  \<open>independentPhrasing\<close> holds exactly when the first eight articles of the list carry
  at least 3 distinct source names and fewer than 3 of these eight exceed similarity 0.35
  with the first 800 units of the body. So 4 names and no similar article among the first
  eight give true, 3 or more similar articles among the first eight give false, and for a
  list of at most eight articles the rule is the one over the whole list.
\<close>

theorem checkCorroboration_independentPhrasing:
  assumes "truthy key"
    and "10 \<le> length (extractKeywords rt (body c) 8)"
    and "news (extractKeywords rt (body c) 8) = Response status (Parsed (Some d))"
    and "res_ok status"
    and "articles d = Some as"
    and "as \<noteq> []"
  shows "\<exists>r. checkCorroboration rt key news c = Some r
           \<and> uniqueSourceCount r = spec_distinctSourceNames (take 8 as)
           \<and> independentPhrasing r
               = (3 \<le> spec_distinctSourceNames (take 8 as)
                  \<and> spec_highSimilarityCount rt (take 800 (body c)) (take 8 as) < 3)
           \<and> (spec_distinctSourceNames (take 8 as) = 4
                \<and> spec_highSimilarityCount rt (take 800 (body c)) (take 8 as) = 0
                \<longrightarrow> independentPhrasing r)
           \<and> (3 \<le> spec_highSimilarityCount rt (take 800 (body c)) (take 8 as)
                \<longrightarrow> \<not> independentPhrasing r)
           \<and> (length as \<le> 8
                \<longrightarrow> independentPhrasing r
                      = (3 \<le> spec_distinctSourceNames as
                         \<and> spec_highSimilarityCount rt (take 800 (body c)) as < 3))"
proof -
  obtain srcs doms n where loop:
    "foldl (corroborationStep rt (take 800 (body c))) ([], [], 0) (take 8 as) = (srcs, doms, n)"
    by (cases "foldl (corroborationStep rt (take 800 (body c))) ([], [], 0) (take 8 as)") auto
  from corroboration_loop[OF loop] have inv: "distinct doms"
    "set doms = set (filter truthy (map (\<lambda>a. orEmpty (article_source_name a)) (take 8 as)))"
    "n = spec_highSimilarityCount rt (take 800 (body c)) (take 8 as)"
    by auto
  have len: "length doms = spec_distinctSourceNames (take 8 as)"
    using inv(1,2) distinct_card[of doms] by (simp add: spec_distinctSourceNames_def)
  obtain sm where "checkCorroboration rt key news c =
          Some \<lparr> found = length as, sources = take 5 srcs, uniqueSourceCount = length doms,
                 independentPhrasing = (3 \<le> length doms \<and> n < 3),
                 query = Some (extractKeywords rt (body c) 8),
                 corroboration_summary = sm \<rparr>"
    using checkCorroboration_returns[where rt=rt and key=key and c=c and news=news, OF assms loop]
    by blast
  then show ?thesis using len inv(3) by auto
qed

theorem checkCorroboration_independentPhrasing_witness:
  "truthy (js ''key'')
   \<and> 10 \<le> length (extractKeywords some_runtime (body (manual_paste senate_story)) 8)
   \<and> res_ok 200
   \<and> news_responds four_outlets (extractKeywords some_runtime (body (manual_paste senate_story)) 8)
        = Response 200 (Parsed (Some \<lparr> articles = Some four_outlets \<rparr>))
   \<and> four_outlets \<noteq> []
   \<and> spec_distinctSourceNames (take 8 four_outlets) = 4
   \<and> spec_highSimilarityCount some_runtime (take 800 (body (manual_paste senate_story)))
        (take 8 four_outlets) = 0
   \<and> (\<exists>r. checkCorroboration some_runtime (js ''key'') (news_responds four_outlets)
              (manual_paste senate_story) = Some r
          \<and> uniqueSourceCount r = 4 \<and> independentPhrasing r)
   \<and> news_responds three_copies (extractKeywords some_runtime (body (manual_paste senate_story)) 8)
        = Response 200 (Parsed (Some \<lparr> articles = Some three_copies \<rparr>))
   \<and> three_copies \<noteq> [] \<and> length three_copies \<le> 8
   \<and> spec_distinctSourceNames (take 8 three_copies) = 4
   \<and> 3 \<le> spec_highSimilarityCount some_runtime (take 800 (body (manual_paste senate_story)))
            (take 8 three_copies)
   \<and> (\<exists>r. checkCorroboration some_runtime (js ''key'') (news_responds three_copies)
              (manual_paste senate_story) = Some r
          \<and> uniqueSourceCount r = 4 \<and> \<not> independentPhrasing r)"
proof -
  have a: "truthy (js ''key'')" by code_simp
  have b: "10 \<le> length (extractKeywords some_runtime (body (manual_paste senate_story)) 8)"
    by code_simp
  have d: "res_ok 200" by (simp add: res_ok_def)
  have c4: "news_responds four_outlets (extractKeywords some_runtime (body (manual_paste senate_story)) 8)
        = Response 200 (Parsed (Some \<lparr> articles = Some four_outlets \<rparr>))"
    by (simp add: news_responds_def)
  have e4: "articles \<lparr> articles = Some four_outlets \<rparr> = Some four_outlets" by simp
  have f4: "four_outlets \<noteq> []" by (simp add: four_outlets_def)
  have g4: "spec_distinctSourceNames (take 8 four_outlets) = 4" by code_simp
  have h4: "spec_highSimilarityCount some_runtime (take 800 (body (manual_paste senate_story)))
              (take 8 four_outlets) = 0"
    by code_simp
  have c3: "news_responds three_copies (extractKeywords some_runtime (body (manual_paste senate_story)) 8)
        = Response 200 (Parsed (Some \<lparr> articles = Some three_copies \<rparr>))"
    by (simp add: news_responds_def)
  have e3: "articles \<lparr> articles = Some three_copies \<rparr> = Some three_copies" by simp
  have f3: "three_copies \<noteq> []" "length three_copies \<le> 8" by (simp_all add: three_copies_def)
  have g3: "spec_distinctSourceNames (take 8 three_copies) = 4" by code_simp
  have h3: "3 \<le> spec_highSimilarityCount some_runtime (take 800 (body (manual_paste senate_story)))
                  (take 8 three_copies)"
    by code_simp
  show ?thesis
    using checkCorroboration_independentPhrasing
            [where rt=some_runtime and key="js ''key''" and c="manual_paste senate_story"
               and news="news_responds four_outlets", OF a b c4 d e4 f4]
          checkCorroboration_independentPhrasing
            [where rt=some_runtime and key="js ''key''" and c="manual_paste senate_story"
               and news="news_responds three_copies", OF a b c3 d e3 f3(1)]
          a b d c4 f4 g4 h4 c3 f3 g3 h3
    by auto
qed

text \<open>
  Claim C6 as stated fails for a list of more than eight articles, of which the client
  reads the first eight only. A page of ten articles whose places 8 to 10 hold copies of
  the story has three articles above 0.35, and \<open>independentPhrasing\<close> is true. A page of
  ten articles with four distinct source names, two of them in the places 9 and 10 only,
  and no article above 0.35, gives false.
\<close>

theorem corroboration_reads_first_eight:
  "\<forall>rt. spec_highSimilarityCount rt (take 800 (body (manual_paste senate_story))) ten_articles = 3
        \<and> map_option independentPhrasing
            (checkCorroboration rt (js ''key'') (news_responds ten_articles)
               (manual_paste senate_story)) = Some True
        \<and> spec_distinctSourceNames late_outlets = 4
        \<and> spec_highSimilarityCount rt (take 800 (body (manual_paste senate_story))) late_outlets = 0
        \<and> map_option independentPhrasing
            (checkCorroboration rt (js ''key'') (news_responds late_outlets)
               (manual_paste senate_story)) = Some False"
  by (intro allI) code_simp

section \<open>Determinism\<close>

text \<open>
  The analyzers never read the clock or the random numbers: a runtime that differs in
  these alone gives the same value at every function that takes the runtime.
\<close>

lemma toLowerCase_clock:
  "toLowerCase (rt\<lparr>dateNow := t, mathRandom := g\<rparr>) = toLowerCase rt"
  by (rule ext) (simp add: toLowerCase_def)

lemma toUpperCase_clock:
  "toUpperCase (rt\<lparr>dateNow := t, mathRandom := g\<rparr>) = toUpperCase rt"
  by (rule ext) (simp add: toUpperCase_def)

lemma sortByCount_clock:
  "sortByCount (rt\<lparr>dateNow := t, mathRandom := g\<rparr>) = sortByCount rt"
  by (rule ext) (simp add: sortByCount_def)

lemma extractKeywords_clock:
  "extractKeywords (rt\<lparr>dateNow := t, mathRandom := g\<rparr>) = extractKeywords rt"
  by (intro ext) (simp only: extractKeywords_def toLowerCase_clock sortByCount_clock)

lemma textSimilarity_clock:
  "textSimilarity (rt\<lparr>dateNow := t, mathRandom := g\<rparr>) = textSimilarity rt"
  by (intro ext) (simp only: textSimilarity_def toLowerCase_clock)

lemma corroborationStep_clock:
  "corroborationStep (rt\<lparr>dateNow := t, mathRandom := g\<rparr>) = corroborationStep rt"
  by (intro ext) (simp only: corroborationStep_def textSimilarity_clock)

lemma checkCorroboration_clock:
  "checkCorroboration (rt\<lparr>dateNow := t, mathRandom := g\<rparr>) = checkCorroboration rt"
  by (intro ext)
     (simp only: checkCorroboration_def checkCorroboration_try_def corroborationStep_clock
        extractKeywords_clock)

lemma analyzeTemporal_clock:
  "analyzeTemporal (rt\<lparr>dateNow := t, mathRandom := g\<rparr>) = analyzeTemporal rt"
  by (intro ext) (simp only: analyzeTemporal_def toLowerCase_clock checkCorroboration_clock)

lemma sentimentStep_clock:
  "sentimentStep (rt\<lparr>dateNow := t, mathRandom := g\<rparr>) = sentimentStep rt"
  by (intro ext) (simp only: sentimentStep_def toLowerCase_clock)

lemma analyzeSentiment_clock:
  "analyzeSentiment (rt\<lparr>dateNow := t, mathRandom := g\<rparr>) = analyzeSentiment rt"
  by (intro ext) (simp only: analyzeSentiment_def sentimentStep_clock toLowerCase_clock)

lemma heuristicSignals_clock:
  "heuristicSignals (rt\<lparr>dateNow := t, mathRandom := g\<rparr>) = heuristicSignals rt"
  by (intro ext) (simp only: heuristicSignals_def toLowerCase_clock)

lemma analyzeLinguistic_clock:
  "analyzeLinguistic (rt\<lparr>dateNow := t, mathRandom := g\<rparr>) = analyzeLinguistic rt"
  by (intro ext)
     (simp only: analyzeLinguistic_def mlSentiment_def analyzeSentiment_clock heuristicSignals_clock)

lemma heuristicSyntheticScore_clock:
  "heuristicSyntheticScore (rt\<lparr>dateNow := t, mathRandom := g\<rparr>) = heuristicSyntheticScore rt"
  by (intro ext) (simp only: heuristicSyntheticScore_def toLowerCase_clock)

lemma analyzeSyntheticText_clock:
  "analyzeSyntheticText (rt\<lparr>dateNow := t, mathRandom := g\<rparr>) = analyzeSyntheticText rt"
  by (intro ext) (simp only: analyzeSyntheticText_def heuristicSyntheticScore_clock)

lemma analyzeStructural_clock:
  "analyzeStructural (rt\<lparr>dateNow := t, mathRandom := g\<rparr>) = analyzeStructural rt"
  by (intro ext) (simp only: analyzeStructural_def toLowerCase_clock toUpperCase_clock)

text \<open>
  The result of an analyzer depends on the remote service through the value its one call
  settles with.
\<close>

lemma analyzeSyntheticText_same_response:
  assumes "modelResponse hf (body c) = modelResponse hf' (body c)"
  shows "analyzeSyntheticText rt hf c = analyzeSyntheticText rt hf' c"
proof -
  have "mlSyntheticScore hf (body c) = mlSyntheticScore hf' (body c)"
    using assms by (simp add: mlSyntheticScore_def detectSynthetic_def modelResponse_def)
  then show ?thesis unfolding analyzeSyntheticText_def Let_def by (simp only:)
qed

lemma analyzeSourcing_same_response:
  assumes "modelResponse hf (body c) = modelResponse hf' (body c)"
  shows "analyzeSourcing hf c = analyzeSourcing hf' c"
proof -
  have "mlEntityData hf (body c) = mlEntityData hf' (body c)"
    using assms by (simp add: mlEntityData_def analyzeEntities_def modelResponse_def)
  then show ?thesis unfolding analyzeSourcing_def Let_def by (simp only:)
qed

lemma analyzeLinguistic_same_response:
  assumes "modelResponse hf (body c) = modelResponse hf' (body c)"
  shows "analyzeLinguistic rt hf c = analyzeLinguistic rt hf' c"
proof -
  have "mlSentiment rt hf (body c) = mlSentiment rt hf' (body c)"
    using assms by (simp add: mlSentiment_def analyzeSentiment_def modelResponse_def)
  then show ?thesis unfolding analyzeLinguistic_def Let_def by (simp only:)
qed

lemma checkCorroboration_same_response:
  assumes "news (extractKeywords rt (body c) 8) = news' (extractKeywords rt (body c) 8)"
  shows "checkCorroboration rt key news c = checkCorroboration rt key news' c"
  unfolding checkCorroboration_def checkCorroboration_try_def Let_def
  by (simp only: assms)

lemma analyzeTemporal_same_response:
  assumes "news (extractKeywords rt (body c) 8) = news' (extractKeywords rt (body c) 8)"
  shows "analyzeTemporal rt key news c = analyzeTemporal rt key news' c"
  unfolding analyzeTemporal_def Let_def
  by (simp only: checkCorroboration_same_response[where rt=rt and news=news and news'=news' and c=c, OF assms])

text \<open>
  A test with a pattern object that has no flag \<open>g\<close> leaves the object as it was, so the
  loop over the patterns of the structural analyzer returns the objects it was given.
\<close>

lemma RegExp_test_not_global: "\<not> global r \<Longrightarrow> snd (RegExp_test r s) = r"
  by (simp add: RegExp_test_def)

lemma clickbaitStep_not_global:
  assumes "\<not> global p"
  shows "snd (clickbaitStep tt ld (hits, visited) p) = visited @ [p]"
proof -
  obtain b1 where t1: "RegExp_test p tt = (b1, p)"
    using RegExp_test_not_global[OF assms, of tt] by (cases "RegExp_test p tt") auto
  obtain b2 where t2: "RegExp_test p ld = (b2, p)"
    using RegExp_test_not_global[OF assms, of ld] by (cases "RegExp_test p ld") auto
  show ?thesis by (cases b1; cases b2) (simp_all add: clickbaitStep_def t1 t2)
qed

lemma clickbait_loop_not_global:
  "list_all (\<lambda>p. \<not> global p) ps \<Longrightarrow>
     snd (foldl (clickbaitStep tt ld) (hits, visited) ps) = visited @ ps"
proof (induction ps arbitrary: hits visited)
  case Nil
  then show ?case by simp
next
  case (Cons p ps)
  then have p: "\<not> global p" and ps: "list_all (\<lambda>p. \<not> global p) ps" by simp_all
  obtain hits' where step: "clickbaitStep tt ld (hits, visited) p = (hits', visited @ [p])"
    using clickbaitStep_not_global[OF p, of tt ld hits visited]
    by (cases "clickbaitStep tt ld (hits, visited) p") auto
  show ?case using Cons.IH[OF ps, of hits' "visited @ [p]"] by (simp add: step)
qed

lemma analyzeStructural_patterns:
  "\<exists>G R R'. analyzeStructural rt ps c =
     (if G then (R, ps)
      else (R', snd (foldl (clickbaitStep (toLowerCase rt (title c))
                              (take 200 (toLowerCase rt (body c)))) (0, []) ps)))"
  unfolding analyzeStructural_def Let_def by (intro exI) (rule refl)

lemma analyzeStructural_leaves_patterns:
  assumes "list_all (\<lambda>p. \<not> global p) ps"
  shows "snd (analyzeStructural rt ps c) = ps"
proof -
  obtain G R R' where sh: "analyzeStructural rt ps c =
     (if G then (R, ps)
      else (R', snd (foldl (clickbaitStep (toLowerCase rt (title c))
                              (take 200 (toLowerCase rt (body c)))) (0, []) ps)))"
    using analyzeStructural_patterns by blast
  show ?thesis unfolding sh using clickbait_loop_not_global[OF assms, of _ _ 0 "[]"] by simp
qed

lemma CLICKBAIT_PATTERNS_not_global: "list_all (\<lambda>p. \<not> global p) CLICKBAIT_PATTERNS"
  by (simp add: CLICKBAIT_PATTERNS_def regexLiteral_def)

text \<open>
  Claim C9. A second run of an analyzer on the same Content gives the same SignalResult,
  all fields included, as the first: it may start at another time, with other random
  numbers, against a remote service that behaves differently (a retry, other answers to
  other inputs), as long as its external call settles with the same value; and, for the
  structural analyzer, it starts with the pattern objects as an earlier run on any
  Content has left them, which is as the module made them. The heuristic contributions
  are functions of the text and the case tables alone.
\<close>

theorem analyzers_deterministic:
  "(modelResponse hfD' (body c) = modelResponse hfD (body c)
      \<longrightarrow> analyzeSyntheticText (rt\<lparr>dateNow := t, mathRandom := g\<rparr>) hfD' c
            = analyzeSyntheticText rt hfD c)
   \<and> (modelResponse hfN' (body c) = modelResponse hfN (body c)
      \<longrightarrow> analyzeSourcing hfN' c = analyzeSourcing hfN c)
   \<and> (modelResponse hfS' (body c) = modelResponse hfS (body c)
      \<longrightarrow> analyzeLinguistic (rt\<lparr>dateNow := t, mathRandom := g\<rparr>) hfS' c
            = analyzeLinguistic rt hfS c)
   \<and> (news' (extractKeywords rt (body c) 8) = news (extractKeywords rt (body c) 8)
      \<longrightarrow> analyzeTemporal (rt\<lparr>dateNow := t, mathRandom := g\<rparr>) key news' c
            = analyzeTemporal rt key news c)
   \<and> snd (analyzeStructural rt CLICKBAIT_PATTERNS c0) = CLICKBAIT_PATTERNS
   \<and> fst (analyzeStructural (rt\<lparr>dateNow := t, mathRandom := g\<rparr>)
            (snd (analyzeStructural rt CLICKBAIT_PATTERNS c0)) c)
       = fst (analyzeStructural rt CLICKBAIT_PATTERNS c)
   \<and> heuristicSyntheticScore (rt\<lparr>dateNow := t, mathRandom := g\<rparr>) (body c)
       = heuristicSyntheticScore rt (body c)
   \<and> heuristicSignals (rt\<lparr>dateNow := t, mathRandom := g\<rparr>) (body c)
       = heuristicSignals rt (body c)"
proof -
  have st: "snd (analyzeStructural rt CLICKBAIT_PATTERNS c0) = CLICKBAIT_PATTERNS"
    using analyzeStructural_leaves_patterns[OF CLICKBAIT_PATTERNS_not_global] .
  show ?thesis
    using analyzeSyntheticText_same_response[of hfD' c hfD rt]
      analyzeSourcing_same_response[of hfN' c hfN]
      analyzeLinguistic_same_response[of hfS' c hfS rt]
      analyzeTemporal_same_response[of news' rt c news key]
    by (simp add: st analyzeSyntheticText_clock analyzeLinguistic_clock analyzeTemporal_clock
          analyzeStructural_clock heuristicSyntheticScore_clock heuristicSignals_clock)
qed

theorem analyzers_deterministic_witness:
  "modelResponse (retried_then detector_says_fake) (body (manual_paste sixteen_words))
     = modelResponse (hf_responds detector_says_fake) (body (manual_paste sixteen_words))
   \<and> analyzeSyntheticText later_runtime (retried_then detector_says_fake) (manual_paste sixteen_words)
     = analyzeSyntheticText some_runtime (hf_responds detector_says_fake) (manual_paste sixteen_words)
   \<and> modelResponse (retried_then two_entities) (body (manual_paste sixteen_words))
     = modelResponse (hf_responds two_entities) (body (manual_paste sixteen_words))
   \<and> analyzeSourcing (retried_then two_entities) (manual_paste sixteen_words)
     = analyzeSourcing (hf_responds two_entities) (manual_paste sixteen_words)
   \<and> modelResponse (retried_then numbered_sentiment) (body (manual_paste sixteen_words))
     = modelResponse (hf_responds numbered_sentiment) (body (manual_paste sixteen_words))
   \<and> analyzeLinguistic later_runtime (retried_then numbered_sentiment) (manual_paste sixteen_words)
     = analyzeLinguistic some_runtime (hf_responds numbered_sentiment) (manual_paste sixteen_words)
   \<and> news_only_for (extractKeywords some_runtime (body (manual_paste sixteen_words)) 8) four_outlets
         (extractKeywords some_runtime (body (manual_paste sixteen_words)) 8)
     = news_responds four_outlets (extractKeywords some_runtime (body (manual_paste sixteen_words)) 8)
   \<and> analyzeTemporal later_runtime (js ''key'')
         (news_only_for (extractKeywords some_runtime (body (manual_paste sixteen_words)) 8) four_outlets)
         (manual_paste sixteen_words)
     = analyzeTemporal some_runtime (js ''key'') (news_responds four_outlets) (manual_paste sixteen_words)
   \<and> snd (analyzeStructural some_runtime CLICKBAIT_PATTERNS clickbait_post) = CLICKBAIT_PATTERNS
   \<and> fst (analyzeStructural later_runtime
            (snd (analyzeStructural some_runtime CLICKBAIT_PATTERNS clickbait_post))
            (manual_paste sixteen_words))
     = fst (analyzeStructural some_runtime CLICKBAIT_PATTERNS (manual_paste sixteen_words))
   \<and> heuristicSyntheticScore later_runtime (body (manual_paste sixteen_words))
     = heuristicSyntheticScore some_runtime (body (manual_paste sixteen_words))
   \<and> heuristicSignals later_runtime (body (manual_paste sixteen_words))
     = heuristicSignals some_runtime (body (manual_paste sixteen_words))"
proof -
  have r: "\<And>j text. modelResponse (retried_then j) text = modelResponse (hf_responds j) text"
    by (simp add: modelResponse_def hf_responds_def retried_then_def catch_null_def res_ok_def)
  have n: "news_only_for (extractKeywords some_runtime (body (manual_paste sixteen_words)) 8) four_outlets
         (extractKeywords some_runtime (body (manual_paste sixteen_words)) 8)
     = news_responds four_outlets (extractKeywords some_runtime (body (manual_paste sixteen_words)) 8)"
    by (simp add: news_responds_def news_only_for_def)
  show ?thesis
    unfolding later_runtime_def
    using analyzers_deterministic
            [where c="manual_paste sixteen_words" and rt=some_runtime
               and t=86400000 and g="\<lambda>k. 1 / 2" and ?c0.0=clickbait_post
               and hfD'="retried_then detector_says_fake" and hfD="hf_responds detector_says_fake"
               and hfN'="retried_then two_entities" and hfN="hf_responds two_entities"
               and hfS'="retried_then numbered_sentiment" and hfS="hf_responds numbered_sentiment"
               and news'="news_only_for (extractKeywords some_runtime (body (manual_paste sixteen_words)) 8) four_outlets"
               and news="news_responds four_outlets" and key="js ''key''"]
          r[of detector_says_fake "body (manual_paste sixteen_words)"]
          r[of two_entities "body (manual_paste sixteen_words)"]
          r[of numbered_sentiment "body (manual_paste sixteen_words)"] n
    by (simp add: analyzeStructural_clock)
qed

text \<open>
  The flag \<open>g\<close> is what would make a pattern object carry state from one test to the
  next: with it, a second test of the same text starts where the first match ended and
  fails.
\<close>

lemma RegExp_test_global_keeps_state:
  "RegExp_test (regexLiteral (liti (js ''doctors hate'')) g) (js ''Doctors hate it'')
     = (True, (regexLiteral (liti (js ''doctors hate'')) g)\<lparr>lastIndex := if g then 12 else 0\<rparr>)
   \<and> fst (RegExp_test ((regexLiteral (liti (js ''doctors hate'')) True)\<lparr>lastIndex := 12\<rparr>)
           (js ''Doctors hate it'')) = False
   \<and> fst (RegExp_test ((regexLiteral (liti (js ''doctors hate'')) False)\<lparr>lastIndex := 12\<rparr>)
           (js ''Doctors hate it'')) = True"
proof -
  have e: "execFrom (liti (js ''doctors hate'')) None (js ''Doctors hate it'') = Some (js '' it'')"
    by code_simp
  have f: "execFrom (liti (js ''doctors hate'')) (Some (js ''Doctors hate it'' ! 11))
             (drop 12 (js ''Doctors hate it'')) = None"
    by code_simp
  have l: "length (js ''Doctors hate it'') = 15" "length (js '' it'') = 3" by (simp_all add: js_def)
  show ?thesis
    by (cases g) (simp_all add: RegExp_test_def regexLiteral_def e f l)
qed


end
